theory Spec2Isabelle
  imports Complex_Main
begin

section \<open>Exceptions, Python values and serialized payloads\<close>

text \<open>
  The instances of Python's \<open>Exception\<close> that \<open>dbos/core.py\<close> raises, catches or lets
  through. \<open>DBAPIError\<close> carries \<open>orig.sqlstate\<close>; \<open>UserError\<close> stands for any other
  exception raised by a user function.
\<close>

datatype exn =
    DBOSException string
  | DBOSMaxStepRetriesExceeded
  | DBOSWorkflowConflictIDError string
  | DBOSRecoveryError string string
  | DBOSWorkflowFunctionNotFoundError string string
  | DBAPIError "string option"
  | AssertionError string
  | ValueError string
  | OverflowError string
  | Exception string
  | UserError string

text \<open>A Python value: \<open>None\<close> or any other object.\<close>

datatype 'a pyval = PyNone | PyObject 'a

text \<open>
  A Python float: a finite value, here an exact rational, or one of the three special
  values. \<open>fmul\<close> is the product, \<open>flt\<close> the comparison \<open>x < y\<close> (false whenever a NaN is
  compared) and \<open>py_min x y\<close> Python's \<open>min(x, y)\<close>, which keeps \<open>x\<close> unless \<open>y < x\<close>.
  \<open>seconds\<close> reads a finite value.
\<close>

datatype pyfloat = Float rat | NaN | PosInf | NegInf

fun fmul :: "pyfloat \<Rightarrow> pyfloat \<Rightarrow> pyfloat" where
  "fmul (Float a) (Float b) = Float (a * b)"
| "fmul NaN y = NaN"
| "fmul x NaN = NaN"
| "fmul PosInf (Float b) = (if 0 < b then PosInf else if b < 0 then NegInf else NaN)"
| "fmul NegInf (Float b) = (if 0 < b then NegInf else if b < 0 then PosInf else NaN)"
| "fmul (Float a) PosInf = (if 0 < a then PosInf else if a < 0 then NegInf else NaN)"
| "fmul (Float a) NegInf = (if 0 < a then NegInf else if a < 0 then PosInf else NaN)"
| "fmul PosInf PosInf = PosInf"
| "fmul PosInf NegInf = NegInf"
| "fmul NegInf PosInf = NegInf"
| "fmul NegInf NegInf = PosInf"

fun flt :: "pyfloat \<Rightarrow> pyfloat \<Rightarrow> bool" where
  "flt (Float a) (Float b) = (a < b)"
| "flt NaN y = False"
| "flt x NaN = False"
| "flt NegInf (Float b) = True"
| "flt NegInf PosInf = True"
| "flt (Float a) PosInf = True"
| "flt x y = False"

definition py_min :: "pyfloat \<Rightarrow> pyfloat \<Rightarrow> pyfloat" where
  "py_min x y = (if flt y x then y else x)"

fun seconds :: "pyfloat \<Rightarrow> rat" where
  "seconds (Float r) = r"
| "seconds x = 0"

text \<open>\<open>WorkflowInputs\<close>: the positional and keyword arguments of a workflow.\<close>

record 'a WorkflowInputs =
  args :: "'a pyval list"
  kwargs :: "(string \<times> 'a pyval) list"

text \<open>
  \<open>dbos.utils\<close> is not part of \<open>core.py\<close>; its serializer is a parameter. \<open>serialize\<close> and
  \<open>deserialize\<close> are \<open>utils.serialize\<close> and \<open>utils.deserialize\<close> on values,
  \<open>serialize_error\<close> is \<open>utils.serialize\<close> on an exception, and \<open>deserialize_error s\<close> is
  the exception that \<open>raise utils.deserialize(s)\<close> raises; \<open>serialize_inputs\<close> and
  \<open>deserialize_inputs\<close> are the two on workflow inputs. \<open>json_dumps\<close> is \<open>json.dumps\<close>
  on a list of role names.
\<close>

record 'a utils =
  serialize :: "'a pyval \<Rightarrow> string"
  deserialize :: "string \<Rightarrow> 'a pyval"
  serialize_error :: "exn \<Rightarrow> string"
  deserialize_error :: "string \<Rightarrow> exn"
  serialize_inputs :: "'a WorkflowInputs \<Rightarrow> string"
  deserialize_inputs :: "string \<Rightarrow> 'a WorkflowInputs"
  json_dumps :: "string list \<Rightarrow> string"

section \<open>Persisted rows and the engine state\<close>

text \<open>\<open>RecordedResult\<close>: what an OAOO lookup returns for a key \<open>(workflow_uuid, function_id)\<close>.\<close>

record RecordedResult =
  r_output :: "string option"
  r_error :: "string option"

record WorkflowStatusInternal =
  workflow_uuid :: string
  status :: string
  name :: string
  class_name :: "string option"
  config_name :: "string option"
  st_output :: "string option"
  st_error :: "string option"
  st_app_id :: string
  st_app_version :: string
  st_executor_id :: string
  st_request :: "string option"
  recovery_attempts :: "int option"
  st_authenticated_user :: "string option"
  st_authenticated_roles :: "string option"
  st_assumed_role :: "string option"

record 'a DBOSContext =
  workflow_id :: string
  function_id :: int
  curr_step_function_id :: int
  id_assigned_for_next_workflow :: string
  sql_session :: bool
  in_recovery :: bool
  request :: "'a pyval"
  app_id :: string
  app_version :: string
  executor_id :: string
  authenticated_user :: "string option"
  authenticated_roles :: "string list option"
  assumed_role :: "string option"

text \<open>
  Modelled from the spec: the tables of \<open>dbos.system_database\<close> and
  \<open>dbos.application_database\<close> (neither is in \<open>core.py\<close>) are keyed maps, the result tables
  keyed by \<open>(workflow_id, function_id)\<close> and write-once under a uniqueness constraint. The
  spec leaves open whether a second write to a key is a no-op or fails; \<open>duplicate_key_error\<close>
  is \<open>None\<close> for the former and the raised error for the latter.

  The state behind the \<open>dbos\<close> object holds the tables of the system database
  (\<open>operation_outputs\<close>, \<open>workflow_status\<close>, \<open>workflow_inputs\<close>, the two write buffers), the
  \<open>transaction_outputs\<close> table of the application database, the queue of the executor, the
  longest duration the platform lets \<open>time.sleep\<close> take, the durations slept so far, the
  number of calls of
  \<open>record_transaction_error\<close> so far, the number of executions of a user function body so
  far, and the state \<open>app\<close> that user functions read and change.
\<close>

record ('a, 'w) dbos =
  operation_outputs :: "string \<times> int \<Rightarrow> RecordedResult option"
  transaction_outputs :: "string \<times> int \<Rightarrow> RecordedResult option"
  workflow_status :: "string \<Rightarrow> WorkflowStatusInternal option"
  workflow_inputs :: "string \<Rightarrow> string option"
  status_buffer :: "WorkflowStatusInternal list"
  inputs_buffer :: "(string \<times> string) list"
  submitted :: "(WorkflowStatusInternal \<times> 'a DBOSContext) list"
  duplicate_key_error :: "exn option"
  error_record_calls :: nat
  platform_sleep_limit :: rat
  slept :: "rat list"
  calls :: nat
  app :: 'w

text \<open>
  A user function: its \<open>__name__\<close> and its body, which reads and changes \<open>app\<close> and returns
  a value or raises.
\<close>

record ('a, 'w) pyfunc =
  fn_name :: string
  fn_body :: "'w \<Rightarrow> (exn + 'a pyval) \<times> 'w"

definition call_func :: "('a, 'w) pyfunc \<Rightarrow> ('a, 'w) dbos \<Rightarrow> (exn + 'a pyval) \<times> ('a, 'w) dbos" where
  "call_func func d =
     (let (r, w) = fn_body func (app d) in (r, d\<lparr>calls := calls d + 1, app := w\<rparr>))"

text \<open>
  The longest duration \<open>time.sleep\<close> accepts: it depends on the platform's time range and
  on its clock, and is never less than the hour that the engine itself caps a sleep at.
\<close>

definition sleep_limit :: "('a, 'w) dbos \<Rightarrow> rat" where
  "sleep_limit d = max 3600 (platform_sleep_limit d)"

text \<open>
  \<open>time.sleep\<close>. It raises \<open>ValueError\<close> on a NaN, \<open>OverflowError\<close> on an infinity and on a
  duration outside the time range (below, the signed 64-bit count of nanoseconds; above,
  the platform's limit), \<open>ValueError\<close> on any other negative duration, and else sleeps.
\<close>

definition time_sleep :: "pyfloat \<Rightarrow> ('a, 'w) dbos \<Rightarrow> exn option \<times> ('a, 'w) dbos" where
  "time_sleep secs d =
     (case secs of
        NaN \<Rightarrow> (Some (ValueError ''Invalid value NaN (not a number)''), d)
      | PosInf \<Rightarrow> (Some (OverflowError ''timestamp out of range for platform time_t''), d)
      | NegInf \<Rightarrow> (Some (OverflowError ''timestamp out of range for platform time_t''), d)
      | Float r \<Rightarrow>
          (if r * 10 ^ 9 < - (2 ^ 63) \<or> sleep_limit d < r then
             (Some (OverflowError ''timestamp out of range for platform time_t''), d)
           else if r < 0 then (Some (ValueError ''sleep length must be non-negative''), d)
           else (None, d\<lparr>slept := slept d @ [r]\<rparr>)))"

text \<open>\<open>time.sleep\<close> accepts the duration, under the given limit.\<close>

definition sleep_accepts :: "rat \<Rightarrow> pyfloat \<Rightarrow> bool" where
  "sleep_accepts limit secs = (case secs of Float r \<Rightarrow> 0 \<le> r \<and> r \<le> limit | _ \<Rightarrow> False)"

text \<open>\<open>app_after n func w\<close> is the state that \<open>n\<close> executions of the body, started from \<open>w\<close>, leave.\<close>

primrec app_after :: "nat \<Rightarrow> ('a, 'w) pyfunc \<Rightarrow> 'w \<Rightarrow> 'w" where
  "app_after 0 func w = w"
| "app_after (Suc n) func w = app_after n func (snd (fn_body func w))"

section \<open>Context scopes\<close>

text \<open>
  Modelled from the spec: \<open>is_within_workflow\<close> of \<open>dbos.context\<close> (not in \<open>core.py\<close>).
  The \<open>workflow_id\<close> of a context is empty outside any workflow.
\<close>

definition is_within_workflow :: "'a DBOSContext \<Rightarrow> bool" where
  "is_within_workflow c = (workflow_id c \<noteq> [])"

text \<open>
  Modelled from the spec: \<open>is_step\<close> of \<open>dbos.context\<close>. A context is in a step while a
  step scope holds a current step function id, which is \<open>-1\<close> otherwise.
\<close>

definition is_step :: "'a DBOSContext \<Rightarrow> bool" where
  "is_step c = (0 \<le> curr_step_function_id c)"

text \<open>
  Modelled from the spec: \<open>is_transaction\<close> of \<open>dbos.context\<close>. A context is in a
  transaction while a transaction scope has its session installed.
\<close>

definition is_transaction :: "'a DBOSContext \<Rightarrow> bool" where
  "is_transaction c = sql_session c"

text \<open>
  Modelled from the spec: \<open>is_workflow\<close> of \<open>dbos.context\<close>: within a workflow and not
  nested inside a step or transaction.
\<close>

definition is_workflow :: "'a DBOSContext \<Rightarrow> bool" where
  "is_workflow c = (is_within_workflow c \<and> \<not> is_transaction c \<and> \<not> is_step c)"

text \<open>
  Modelled from the spec: entering the step scope \<open>EnterDBOSStep\<close> of \<open>dbos.context\<close>
  increments \<open>function_id\<close>, which becomes the function id of the current step.
\<close>

definition EnterDBOSStep_enter :: "'a DBOSContext \<Rightarrow> 'a DBOSContext" where
  "EnterDBOSStep_enter c =
     c\<lparr>function_id := function_id c + 1, curr_step_function_id := function_id c + 1\<rparr>"

text \<open>
  Modelled from the spec: leaving the step scope, on every exit path, releases the current
  step.
\<close>

definition EnterDBOSStep_exit :: "'a DBOSContext \<Rightarrow> 'a DBOSContext" where
  "EnterDBOSStep_exit c = c\<lparr>curr_step_function_id := - 1\<rparr>"

text \<open>
  Modelled from the spec: entering the transaction scope \<open>EnterDBOSTransaction\<close> of
  \<open>dbos.context\<close> increments \<open>function_id\<close> (as before each recorded sub-operation) and
  installs the session.
\<close>

definition EnterDBOSTransaction_enter :: "'a DBOSContext \<Rightarrow> 'a DBOSContext" where
  "EnterDBOSTransaction_enter c = c\<lparr>function_id := function_id c + 1, sql_session := True\<rparr>"

text \<open>
  Modelled from the spec: leaving the transaction scope, on every exit path, releases the
  session.
\<close>

definition EnterDBOSTransaction_exit :: "'a DBOSContext \<Rightarrow> 'a DBOSContext" where
  "EnterDBOSTransaction_exit c = c\<lparr>sql_session := False\<rparr>"

section \<open>The step engine: \<open>invoke_step\<close>\<close>

record step_config =
  retries_allowed :: bool
  interval_seconds :: pyfloat
  max_attempts :: int
  backoff_rate :: pyfloat

text \<open>
  Modelled from the spec: \<open>check_operation_execution\<close> of \<open>dbos.system_database\<close> looks the
  key \<open>(workflow_id, function_id)\<close> up in the operation-result table.
\<close>

definition check_operation_execution ::
  "('a, 'w) dbos \<Rightarrow> string \<Rightarrow> int \<Rightarrow> RecordedResult option" where
  "check_operation_execution d wfid fid = operation_outputs d (wfid, fid)"

text \<open>
  Modelled from the spec: \<open>record_operation_result\<close> of \<open>dbos.system_database\<close> inserts the
  row for \<open>(workflow_uuid, function_id)\<close>; on an existing key the uniqueness constraint
  applies.
\<close>

definition record_operation_result ::
  "string \<Rightarrow> int \<Rightarrow> RecordedResult \<Rightarrow> ('a, 'w) dbos \<Rightarrow> exn option \<times> ('a, 'w) dbos" where
  "record_operation_result wfid fid row d =
     (case operation_outputs d (wfid, fid) of
        None \<Rightarrow> (None, d\<lparr>operation_outputs := (operation_outputs d)((wfid, fid) \<mapsto> row)\<rparr>)
      | Some _ \<Rightarrow> (duplicate_key_error d, d))"

text \<open>The local variables of \<open>invoke_step\<close> that the retry loop reads and assigns.\<close>

record 'a step_locals =
  output_var :: "'a pyval"
  error_var :: "exn option"
  step_output_output :: "string option"
  local_interval_seconds :: pyfloat

text \<open>
  The loop \<open>for attempt in range(1, local_max_attempts + 1)\<close>, over the attempts still to
  run. \<open>Inl e\<close> is an exception leaving the loop (from \<open>time.sleep\<close> in the handler);
  \<open>Inr\<close> is the loop ending, by \<open>break\<close> or by exhausting the range. The calls to the logger
  and to the tracing span only emit to the tracing sink and leave the state alone.
\<close>

fun step_attempts ::
  "step_config \<Rightarrow> 'a utils \<Rightarrow> ('a, 'w) pyfunc \<Rightarrow> int \<Rightarrow> int list \<Rightarrow> 'a step_locals \<Rightarrow>
   ('a, 'w) dbos \<Rightarrow> (exn + 'a step_locals) \<times> ('a, 'w) dbos" where
  "step_attempts cfg U func local_max_attempts [] L d = (Inr L, d)"
| "step_attempts cfg U func local_max_attempts (attempt # rest) L d =
     (case call_func func d of
        (Inr out, d1) \<Rightarrow>
          (Inr (L\<lparr>output_var := out, step_output_output := Some (serialize U out),
                  error_var := None\<rparr>), d1)
      | (Inl err, d1) \<Rightarrow>
          (if retries_allowed cfg then
             (if attempt = local_max_attempts then
                step_attempts cfg U func local_max_attempts rest
                  (L\<lparr>error_var := Some DBOSMaxStepRetriesExceeded\<rparr>) d1
              else
                (case time_sleep (local_interval_seconds L) d1 of
                   (Some e, d2) \<Rightarrow> (Inl e, d2)
                 | (None, d2) \<Rightarrow>
                     step_attempts cfg U func local_max_attempts rest
                       (L\<lparr>error_var := Some err,
                          local_interval_seconds :=
                            py_min (fmul (local_interval_seconds L) (backoff_rate cfg))
                              (Float 3600)\<rparr>) d2))
           else
             step_attempts cfg U func local_max_attempts rest (L\<lparr>error_var := Some err\<rparr>) d1))"

text \<open>
  \<open>invoke_step\<close>, from the check of \<open>dbosreg.dbos\<close> to the exit of the step scope. The
  result is the returned value or the raised exception, the caller's context after the
  scope, and the state behind \<open>dbosreg.dbos\<close>.
\<close>

definition invoke_step ::
  "step_config \<Rightarrow> 'a utils \<Rightarrow> ('a, 'w) pyfunc \<Rightarrow> ('a, 'w) dbos option \<Rightarrow> 'a DBOSContext \<Rightarrow>
   (exn + 'a pyval) \<times> 'a DBOSContext \<times> ('a, 'w) dbos option" where
  "invoke_step cfg U func dbosreg c =
     (case dbosreg of
        None \<Rightarrow>
          (Inl (DBOSException (''Function '' @ fn_name func @ '' invoked before DBOS initialized'')),
           c, None)
      | Some d \<Rightarrow>
          (let ctx = EnterDBOSStep_enter c;
               (r, d') =
                 (case check_operation_execution d (workflow_id ctx) (function_id ctx) of
                    Some recorded_output \<Rightarrow>
                      (case r_error recorded_output of
                         Some e \<Rightarrow> (Inl (deserialize_error U e), d)
                       | None \<Rightarrow>
                           (case r_output recorded_output of
                              Some out \<Rightarrow> (Inr (deserialize U out), d)
                            | None \<Rightarrow> (Inl (Exception ''Output and error are both None''), d)))
                  | None \<Rightarrow>
                      (let local_max_attempts =
                             (if retries_allowed cfg then max_attempts cfg else 1);
                           L0 = \<lparr>output_var = PyNone, error_var = None,
                                 step_output_output = None,
                                 local_interval_seconds = interval_seconds cfg\<rparr>
                       in case step_attempts cfg U func local_max_attempts
                                 [1..local_max_attempts] L0 d of
                            (Inl e, d1) \<Rightarrow> (Inl e, d1)
                          | (Inr L, d1) \<Rightarrow>
                              (case record_operation_result (workflow_id ctx) (function_id ctx)
                                      \<lparr>r_output = step_output_output L,
                                       r_error = map_option (serialize_error U) (error_var L)\<rparr> d1 of
                                 (Some e, d2) \<Rightarrow> (Inl e, d2)
                               | (None, d2) \<Rightarrow>
                                   (case error_var L of
                                      Some e \<Rightarrow> (Inl e, d2)
                                    | None \<Rightarrow> (Inr (output_var L), d2)))))
           in (r, EnterDBOSStep_exit ctx, Some d')))"



section \<open>The transaction engine: \<open>invoke_tx\<close>\<close>

text \<open>The truth value Python gives an \<open>Optional[str]\<close>: \<open>None\<close> and the empty string are false.\<close>

definition truthy :: "string option \<Rightarrow> bool" where
  "truthy x = (case x of None \<Rightarrow> False | Some s \<Rightarrow> s \<noteq> [])"

text \<open>
  Modelled from the spec: \<open>check_transaction_execution\<close> of \<open>dbos.application_database\<close>
  looks the key \<open>(workflow_id, function_id)\<close> up in the transaction-result table, within
  the transaction.
\<close>

definition check_transaction_execution ::
  "('a, 'w) dbos \<Rightarrow> string \<Rightarrow> int \<Rightarrow> RecordedResult option" where
  "check_transaction_execution d wfid fid = transaction_outputs d (wfid, fid)"

text \<open>\<open>TransactionResultInternal\<close>, the fields of \<open>txn_output\<close> that the engine assigns.\<close>

record TransactionResultInternal =
  txn_workflow_uuid :: string
  txn_function_id :: int
  txn_output_field :: "string option"
  txn_error_field :: "string option"

text \<open>
  Modelled from the spec: \<open>record_transaction_output\<close> of \<open>dbos.application_database\<close>
  inserts the transaction-result row with the output, in the user's transaction. On an
  existing key the uniqueness constraint applies.
\<close>

definition record_transaction_output ::
  "TransactionResultInternal \<Rightarrow> ('a, 'w) dbos \<Rightarrow> exn option \<times> ('a, 'w) dbos" where
  "record_transaction_output txn_output d =
     (let key = (txn_workflow_uuid txn_output, txn_function_id txn_output) in
      case transaction_outputs d key of
        None \<Rightarrow>
          (None, d\<lparr>transaction_outputs := (transaction_outputs d)
                     (key \<mapsto> \<lparr>r_output = txn_output_field txn_output, r_error = None\<rparr>)\<rparr>)
      | Some _ \<Rightarrow> (duplicate_key_error d, d))"

text \<open>
  Modelled from the spec: \<open>record_transaction_error\<close> of \<open>dbos.application_database\<close>
  writes the error to the transaction-result table, in a transaction of its own. On an
  existing key the uniqueness constraint applies. Every call is counted.
\<close>

definition record_transaction_error ::
  "TransactionResultInternal \<Rightarrow> ('a, 'w) dbos \<Rightarrow> exn option \<times> ('a, 'w) dbos" where
  "record_transaction_error txn_output d =
     (let key = (txn_workflow_uuid txn_output, txn_function_id txn_output);
          d1 = d\<lparr>error_record_calls := error_record_calls d + 1\<rparr>
      in case transaction_outputs d key of
           None \<Rightarrow>
             (None, d1\<lparr>transaction_outputs := (transaction_outputs d)
                         (key \<mapsto> \<lparr>r_output = None, r_error = txn_error_field txn_output\<rparr>)\<rparr>)
         | Some _ \<Rightarrow> (duplicate_key_error d, d1))"

text \<open>
  How the \<open>try\<close> block of one loop iteration ends: \<open>return\<close> of a replayed output, \<open>break\<close>
  after the body ran and its output was recorded, or an exception together with
  \<open>has_recorded_error\<close>.
\<close>

datatype 'a tx_try = Return "'a pyval" | Break "'a pyval" | Raise exn bool

text \<open>
  The \<open>try\<close> block: the OAOO check and, without a recorded row, the user function and the
  record of its output. It also returns \<open>txn_output\<close>, whose output the block may assign.
  The body runs in the session's transaction: the \<open>app\<close> state a raising body leaves is the
  one after the rollback. Opening the session and setting the isolation level do not change
  the state, and the commit that ends the block succeeds: the database raises through the
  statements of the body.
\<close>

definition tx_try_block ::
  "'a utils \<Rightarrow> ('a, 'w) pyfunc \<Rightarrow> 'a DBOSContext \<Rightarrow> TransactionResultInternal \<Rightarrow>
   ('a, 'w) dbos \<Rightarrow> 'a tx_try \<times> TransactionResultInternal \<times> ('a, 'w) dbos" where
  "tx_try_block U func ctx txn_output d =
     (case check_transaction_execution d (workflow_id ctx) (function_id ctx) of
        Some recorded_output \<Rightarrow>
          (if truthy (r_error recorded_output) then
             (Raise (deserialize_error U (case r_error recorded_output of Some e \<Rightarrow> e | None \<Rightarrow> []))
                True, txn_output, d)
           else if truthy (r_output recorded_output) then
             (Return (deserialize U (case r_output recorded_output of Some out \<Rightarrow> out | None \<Rightarrow> [])),
              txn_output, d)
           else (Raise (Exception ''Output and error are both None'') False, txn_output, d))
      | None \<Rightarrow>
          (case call_func func d of
             (Inl e, d1) \<Rightarrow> (Raise e False, txn_output, d1)
           | (Inr out, d1) \<Rightarrow>
               (let txn_output1 = txn_output\<lparr>txn_output_field := Some (serialize U out)\<rparr> in
                if \<not> sql_session ctx then
                  (Raise (AssertionError ''Cannot find a database connection'') False,
                   txn_output1, d1)
                else
                  (case record_transaction_output txn_output1 d1 of
                     (Some e, d2) \<Rightarrow> (Raise e False, txn_output1, d2)
                   | (None, d2) \<Rightarrow> (Break out, txn_output1, d2)))))"

text \<open>
  The loop \<open>while True\<close> with its two handlers, on fuel: \<open>None\<close> is the loop still running
  when the fuel is spent. \<open>backoff_factor\<close> is 1.5 and \<open>max_retry_wait_seconds\<close> is 2.0.
\<close>

fun invoke_tx_loop ::
  "nat \<Rightarrow> 'a utils \<Rightarrow> ('a, 'w) pyfunc \<Rightarrow> 'a DBOSContext \<Rightarrow> rat \<Rightarrow> TransactionResultInternal \<Rightarrow>
   ('a, 'w) dbos \<Rightarrow> ((exn + 'a pyval) \<times> ('a, 'w) dbos) option" where
  "invoke_tx_loop 0 U func ctx retry_wait_seconds txn_output d = None"
| "invoke_tx_loop (Suc fuel) U func ctx retry_wait_seconds txn_output d =
     (case tx_try_block U func ctx txn_output d of
        (Return v, txn_output1, d1) \<Rightarrow> Some (Inr v, d1)
      | (Break out, txn_output1, d1) \<Rightarrow> Some (Inr out, d1)
      | (Raise error has_recorded_error, txn_output1, d1) \<Rightarrow>
          (case error of
             DBAPIError sqlstate \<Rightarrow>
               (if sqlstate = Some ''40001'' then
                  (case time_sleep (Float retry_wait_seconds) d1 of
                     (Some e, d2) \<Rightarrow> Some (Inl e, d2)
                   | (None, d2) \<Rightarrow>
                       invoke_tx_loop fuel U func ctx (min (retry_wait_seconds * (3 / 2)) 2)
                         txn_output1 d2)
                else Some (Inl error, d1))
           | _ \<Rightarrow>
               (if \<not> has_recorded_error then
                  (case record_transaction_error
                          (txn_output1\<lparr>txn_error_field := Some (serialize_error U error)\<rparr>) d1 of
                     (Some e, d2) \<Rightarrow> Some (Inl e, d2)
                   | (None, d2) \<Rightarrow> Some (Inl error, d2))
                else Some (Inl error, d1))))"

definition invoke_tx ::
  "nat \<Rightarrow> 'a utils \<Rightarrow> ('a, 'w) pyfunc \<Rightarrow> ('a, 'w) dbos option \<Rightarrow> 'a DBOSContext \<Rightarrow>
   ((exn + 'a pyval) \<times> 'a DBOSContext \<times> ('a, 'w) dbos option) option" where
  "invoke_tx fuel U func dbosreg c =
     (case dbosreg of
        None \<Rightarrow>
          Some (Inl (DBOSException
                  (''Function '' @ fn_name func @ '' invoked before DBOS initialized'')), c, None)
      | Some d \<Rightarrow>
          (let ctx = EnterDBOSTransaction_enter c;
               txn_output = \<lparr>txn_workflow_uuid = workflow_id ctx,
                             txn_function_id = function_id ctx,
                             txn_output_field = None, txn_error_field = None\<rparr>
           in case invoke_tx_loop fuel U func ctx (1 / 1000) txn_output d of
                None \<Rightarrow> None
              | Some (r, d') \<Rightarrow> Some (r, EnterDBOSTransaction_exit ctx, Some d')))"

text \<open>
  The waits the spec prescribes before the retries of a transaction: 1 ms, then each 1.5
  times the previous, capped at 2 s.
\<close>

definition serialization_retry_waits :: "nat \<Rightarrow> rat list" where
  "serialization_retry_waits n = map (\<lambda>k. min (1 / 1000 * (3 / 2) ^ k) 2) [0..<n]"

text \<open>
  The body raises a \<open>DBAPIError\<close> with SQLSTATE 40001 on each of its next \<open>n\<close> executions,
  started from \<open>w\<close>.
\<close>

primrec conflicts :: "nat \<Rightarrow> ('a, 'w) pyfunc \<Rightarrow> 'w \<Rightarrow> bool" where
  "conflicts 0 func w = True"
| "conflicts (Suc n) func w =
     (fst (fn_body func w) = Inl (DBAPIError (Some ''40001''))
      \<and> conflicts n func (snd (fn_body func w)))"


text \<open>The waits of the loop for \<open>n\<close> retries, from the current \<open>retry_wait_seconds\<close>.\<close>

primrec waits_from :: "rat \<Rightarrow> nat \<Rightarrow> rat list" where
  "waits_from r 0 = []"
| "waits_from r (Suc n) = r # waits_from (min (r * (3 / 2)) 2) n"

section \<open>The workflow engine\<close>

text \<open>
  A workflow function as the engine sees it: \<open>__name__\<close>, \<open>__self__\<close> when it is a bound
  method, whether \<open>get_func_info\<close> finds it, what \<open>dbos.registrations\<close> (not in \<open>core.py\<close>)
  answers for its name, class name, config name and temp-workflow type, and its body,
  which reads and changes the whole state (it invokes steps and transactions).
\<close>

record ('a, 'w) workflow =
  wf_name :: string
  wf_self :: "'a pyval option"
  registered :: bool
  dbos_func_name :: string
  dbos_class_name :: "'a pyval list \<Rightarrow> string option"
  dbos_config_name :: "'a pyval list \<Rightarrow> string option"
  temp_workflow_type :: "string option"
  wf_body :: "'a WorkflowInputs \<Rightarrow> ('a, 'w) dbos \<Rightarrow> (exn + 'a pyval) \<times> ('a, 'w) dbos"

text \<open>The two handle classes of \<open>core.py\<close>, each with its \<open>workflow_id\<close>.\<close>

datatype handle = WorkflowHandleFuture string | WorkflowHandlePolling string

fun get_workflow_id :: "handle \<Rightarrow> string" where
  "get_workflow_id (WorkflowHandleFuture wfid) = wfid"
| "get_workflow_id (WorkflowHandlePolling wfid) = wfid"

text \<open>
  Modelled from the spec: \<open>update_workflow_status\<close> of \<open>dbos.system_database\<close> writes the
  status row synchronously: an upsert with \<open>replace\<close> (the default); without it an insert
  that leaves an existing row alone, except for counting a recovery attempt.
\<close>

definition update_workflow_status ::
  "WorkflowStatusInternal \<Rightarrow> bool \<Rightarrow> bool \<Rightarrow> ('a, 'w) dbos \<Rightarrow> ('a, 'w) dbos" where
  "update_workflow_status st replace in_rec d =
     (case workflow_status d (workflow_uuid st) of
        None \<Rightarrow> d\<lparr>workflow_status := (workflow_status d)(workflow_uuid st \<mapsto> st)\<rparr>
      | Some row \<Rightarrow>
          (if replace then d\<lparr>workflow_status := (workflow_status d)(workflow_uuid st \<mapsto> st)\<rparr>
           else if in_rec then
             d\<lparr>workflow_status := (workflow_status d)
                 (workflow_uuid st \<mapsto>
                    row\<lparr>recovery_attempts :=
                          Some ((case recovery_attempts row of None \<Rightarrow> 0 | Some k \<Rightarrow> k) + 1)\<rparr>)\<rparr>
           else d))"

text \<open>
  Modelled from the spec: \<open>update_workflow_inputs\<close> of \<open>dbos.system_database\<close> inserts the
  inputs row, written at most once per id.
\<close>

definition update_workflow_inputs :: "string \<Rightarrow> string \<Rightarrow> ('a, 'w) dbos \<Rightarrow> ('a, 'w) dbos" where
  "update_workflow_inputs wfid inputs d =
     (case workflow_inputs d wfid of
        None \<Rightarrow> d\<lparr>workflow_inputs := (workflow_inputs d)(wfid \<mapsto> inputs)\<rparr>
      | Some _ \<Rightarrow> d)"

text \<open>
  Modelled from the spec: \<open>buffer_workflow_status\<close> of \<open>dbos.system_database\<close> hands the
  status write to the background flusher.
\<close>

definition buffer_workflow_status :: "WorkflowStatusInternal \<Rightarrow> ('a, 'w) dbos \<Rightarrow> ('a, 'w) dbos" where
  "buffer_workflow_status st d = d\<lparr>status_buffer := status_buffer d @ [st]\<rparr>"

text \<open>
  Modelled from the spec: \<open>buffer_workflow_inputs\<close> of \<open>dbos.system_database\<close> hands the
  inputs write to the background flusher.
\<close>

definition buffer_workflow_inputs :: "string \<Rightarrow> string \<Rightarrow> ('a, 'w) dbos \<Rightarrow> ('a, 'w) dbos" where
  "buffer_workflow_inputs wfid inputs d = d\<lparr>inputs_buffer := inputs_buffer d @ [(wfid, inputs)]\<rparr>"

text \<open>\<open>_init_workflow\<close>: the status it composes and the state after its writes.\<close>

definition init_workflow ::
  "'a utils \<Rightarrow> ('a, 'w) dbos \<Rightarrow> 'a DBOSContext \<Rightarrow> 'a WorkflowInputs \<Rightarrow> string \<Rightarrow> string option \<Rightarrow>
   string option \<Rightarrow> string option \<Rightarrow> WorkflowStatusInternal \<times> ('a, 'w) dbos" where
  "init_workflow U d ctx inputs wf_name' class_name' config_name' temp_wf_type =
     (let wfid = (if length (workflow_id ctx) > 0 then workflow_id ctx
                  else id_assigned_for_next_workflow ctx);
          st = \<lparr>workflow_uuid = wfid, status = ''PENDING'', name = wf_name',
                class_name = class_name', config_name = config_name',
                st_output = None, st_error = None,
                st_app_id = app_id ctx, st_app_version = app_version ctx,
                st_executor_id = executor_id ctx,
                st_request = (case request ctx of PyNone \<Rightarrow> None
                              | PyObject x \<Rightarrow> Some (serialize U (PyObject x))),
                recovery_attempts = None,
                st_authenticated_user = authenticated_user ctx,
                st_authenticated_roles =
                  (case authenticated_roles ctx of
                     None \<Rightarrow> None
                   | Some roles \<Rightarrow> if roles = [] then None else Some (json_dumps U roles)),
                st_assumed_role = assumed_role ctx\<rparr>;
          inputs1 = (if class_name' \<noteq> None then inputs\<lparr>args := drop 1 (args inputs)\<rparr>
                     else inputs)
      in if temp_wf_type \<noteq> Some ''transaction'' then
           (st, update_workflow_inputs wfid (serialize_inputs U inputs1)
                  (update_workflow_status st False (in_recovery ctx) d))
         else (st, buffer_workflow_inputs wfid (serialize_inputs U inputs1) d))"

text \<open>
  Modelled from the spec: \<open>dbos.retrieve_workflow\<close> with \<open>existing_workflow=False\<close> (in
  \<open>dbos.dbos\<close>, not in \<open>core.py\<close>) obtains a polling handle for the id, without a lookup.
\<close>

definition retrieve_workflow :: "string \<Rightarrow> handle" where
  "retrieve_workflow wfid = WorkflowHandlePolling wfid"

text \<open>
  \<open>_WorkflowHandlePolling.get_result\<close> is \<open>dbos._sys_db.await_workflow_result(workflow_id)\<close>.
  The wait ends when another executor brings the workflow to a terminal status; what it
  then returns or raises, for each id, is the parameter \<open>await_workflow_result\<close>.
\<close>

definition polling_get_result :: "(string \<Rightarrow> exn + 'a pyval) \<Rightarrow> handle \<Rightarrow> exn + 'a pyval" where
  "polling_get_result await_workflow_result h = await_workflow_result (get_workflow_id h)"

text \<open>
  \<open>_execute_workflow\<close>: the result, the \<open>status\<close> dictionary as the function leaves it, and
  the state.
\<close>

definition execute_workflow ::
  "'a utils \<Rightarrow> (string \<Rightarrow> exn + 'a pyval) \<Rightarrow> WorkflowStatusInternal \<Rightarrow> ('a, 'w) workflow \<Rightarrow>
   'a WorkflowInputs \<Rightarrow> ('a, 'w) dbos \<Rightarrow>
   (exn + 'a pyval) \<times> WorkflowStatusInternal \<times> ('a, 'w) dbos" where
  "execute_workflow U await_workflow_result st func inputs d =
     (case wf_body func inputs d of
        (Inr out, d1) \<Rightarrow>
          (let st1 = st\<lparr>status := ''SUCCESS'', st_output := Some (serialize U out)\<rparr>
           in (Inr out, st1, buffer_workflow_status st1 d1))
      | (Inl error, d1) \<Rightarrow>
          (case error of
             DBOSWorkflowConflictIDError _ \<Rightarrow>
               (let wf_handle = retrieve_workflow (workflow_uuid st)
                in (polling_get_result await_workflow_result wf_handle, st, d1))
           | _ \<Rightarrow>
               (let st1 = st\<lparr>status := ''ERROR'', st_error := Some (serialize_error U error)\<rparr>
                in (Inl error, st1, update_workflow_status st1 True False d1))))"

section \<open>Starting a workflow\<close>

text \<open>Python's \<open>str\<close> on an integer.\<close>

fun str_nat :: "nat \<Rightarrow> string" where
  "str_nat n =
     (if n < 10 then [''0123456789'' ! n] else str_nat (n div 10) @ [''0123456789'' ! (n mod 10)])"

definition str_int :: "int \<Rightarrow> string" where
  "str_int i = (if i < 0 then ''-'' @ str_nat (nat (- i)) else str_nat (nat i))"

text \<open>
  The methods of \<open>DBOSContext\<close> that \<open>_start_workflow\<close> calls and \<open>core.py\<close> does not
  define: the constructor, \<open>create_child\<close> (the child, and the receiver as the call leaves
  it) and \<open>assign_workflow_id\<close>.
\<close>

record 'a context_api =
  new_context :: "'a DBOSContext"
  create_child :: "'a DBOSContext \<Rightarrow> 'a DBOSContext \<times> 'a DBOSContext"
  assign_workflow_id :: "'a DBOSContext \<Rightarrow> string"

text \<open>
  The first block of \<open>_start_workflow\<close> on the caller's context: within a workflow (and
  asserted not to be in a step), bump \<open>function_id\<close> and, when no id is assigned for the
  next workflow, assign the parent's id with the call number as suffix.
\<close>

definition reserve_child_id :: "'a DBOSContext option \<Rightarrow> exn + 'a DBOSContext option" where
  "reserve_child_id cur_ctx =
     (case cur_ctx of
        None \<Rightarrow> Inr None
      | Some c \<Rightarrow>
          (if is_within_workflow c then
             (if \<not> is_workflow c then Inl (AssertionError [])
              else
                (let c1 = c\<lparr>function_id := function_id c + 1\<rparr>
                 in if length (id_assigned_for_next_workflow c1) = 0 then
                      Inr (Some (c1\<lparr>id_assigned_for_next_workflow :=
                                     workflow_id c1 @ ''-'' @ str_int (function_id c1)\<rparr>))
                    else Inr (Some c1)))
           else Inr (Some c)))"

text \<open>
  \<open>_start_workflow\<close>: the handle or the exception, the caller's context and the state. The
  submission to the executor queues the prepared status and context; the worker thread
  that runs them is not part of this function.
\<close>

definition start_workflow ::
  "'a context_api \<Rightarrow> 'a utils \<Rightarrow> ('a, 'w) workflow \<Rightarrow> 'a WorkflowInputs \<Rightarrow>
   'a DBOSContext option \<Rightarrow> ('a, 'w) dbos \<Rightarrow>
   (exn + handle) \<times> 'a DBOSContext option \<times> ('a, 'w) dbos" where
  "start_workflow K U func inputs cur_ctx d =
     (if \<not> registered func then
        (Inl (DBOSWorkflowFunctionNotFoundError ''<NONE>''
               (''start_workflow: function '' @ wf_name func @ '' is not registered'')),
         cur_ctx, d)
      else
        (case reserve_child_id cur_ctx of
           Inl e \<Rightarrow> (Inl e, cur_ctx, d)
         | Inr cur_ctx1 \<Rightarrow>
             (let (new_wf_ctx0, cur_ctx2) =
                    (case cur_ctx1 of
                       None \<Rightarrow> (new_context K, None)
                     | Some c \<Rightarrow> (fst (create_child K c), Some (snd (create_child K c))));
                  new_wf_ctx = new_wf_ctx0\<lparr>id_assigned_for_next_workflow :=
                                              assign_workflow_id K new_wf_ctx0\<rparr>;
                  new_wf_id = id_assigned_for_next_workflow new_wf_ctx;
                  gin_args = (case wf_self func of None \<Rightarrow> args inputs | Some fself \<Rightarrow> [fself]);
                  (st, d1) = init_workflow U d new_wf_ctx inputs (dbos_func_name func)
                               (dbos_class_name func gin_args) (dbos_config_name func gin_args)
                               (temp_workflow_type func)
              in (Inr (WorkflowHandleFuture new_wf_id), cur_ctx2,
                  d1\<lparr>submitted := submitted d1 @ [(st, new_wf_ctx)]\<rparr>))))"


declare str_nat.simps [simp del]

section \<open>Recovery\<close>

text \<open>The three lookup maps of the registry.\<close>

record ('a, 'w) registry =
  workflow_info_map :: "string \<Rightarrow> ('a, 'w) workflow option"
  class_info_map :: "string \<Rightarrow> 'a pyval option"
  instance_info_map :: "string \<Rightarrow> 'a pyval option"

text \<open>
  Modelled from the spec: \<open>get_workflow_status\<close> of \<open>dbos.system_database\<close> is the
  persisted status row of the id, \<open>None\<close> when the row is missing.
\<close>

definition get_workflow_status :: "('a, 'w) dbos \<Rightarrow> string \<Rightarrow> WorkflowStatusInternal option" where
  "get_workflow_status d wfid = workflow_status d wfid"

text \<open>
  Modelled from the spec: \<open>get_workflow_inputs\<close> of \<open>dbos.system_database\<close> is the
  persisted inputs row of the id, deserialized, \<open>None\<close> when the row is missing.
\<close>

definition get_workflow_inputs :: "'a utils \<Rightarrow> ('a, 'w) dbos \<Rightarrow> string \<Rightarrow> 'a WorkflowInputs option" where
  "get_workflow_inputs U d wfid = map_option (deserialize_inputs U) (workflow_inputs d wfid)"

text \<open>
  Modelled from the spec: the scope \<open>DBOSContextEnsure\<close> of \<open>dbos.context\<close> gives the
  current context, a new one when there is none.
\<close>

definition DBOSContextEnsure :: "'a context_api \<Rightarrow> 'a DBOSContext option \<Rightarrow> 'a DBOSContext" where
  "DBOSContextEnsure K cur_ctx = (case cur_ctx of None \<Rightarrow> new_context K | Some c \<Rightarrow> c)"

text \<open>
  Modelled from the spec: the scope \<open>SetWorkflowID\<close> of \<open>dbos.context\<close> overrides the id
  assigned for the next workflow with the given one.
\<close>

definition SetWorkflowID :: "string \<Rightarrow> 'a DBOSContext \<Rightarrow> 'a DBOSContext" where
  "SetWorkflowID wfid c = c\<lparr>id_assigned_for_next_workflow := wfid\<rparr>"

text \<open>Python's formatting of an \<open>Optional[str]\<close> in an f-string.\<close>

definition fmt :: "string option \<Rightarrow> string" where
  "fmt x = (case x of None \<Rightarrow> ''None'' | Some s \<Rightarrow> s)"

text \<open>
  \<open>_execute_workflow_id\<close>: the handle or the exception, and the state. The context scopes
  end with the call.
\<close>

definition execute_workflow_id ::
  "'a context_api \<Rightarrow> 'a utils \<Rightarrow> ('a, 'w) registry \<Rightarrow> 'a DBOSContext option \<Rightarrow> string \<Rightarrow>
   ('a, 'w) dbos \<Rightarrow> (exn + handle) \<times> ('a, 'w) dbos" where
  "execute_workflow_id K U reg cur_ctx wfid d =
     (case get_workflow_status d wfid of
        None \<Rightarrow> (Inl (DBOSRecoveryError wfid ''Workflow status not found''), d)
      | Some st \<Rightarrow>
     (case get_workflow_inputs U d wfid of
        None \<Rightarrow> (Inl (DBOSRecoveryError wfid ''Workflow inputs not found''), d)
      | Some inputs \<Rightarrow>
     (case workflow_info_map reg (name st) of
        None \<Rightarrow> (Inl (DBOSWorkflowFunctionNotFoundError wfid ''Workflow function not found''), d)
      | Some wf_func \<Rightarrow>
          (let ctx0 = DBOSContextEnsure K cur_ctx;
               ctx = ctx0\<lparr>request := (case st_request st of None \<Rightarrow> PyNone
                                        | Some r \<Rightarrow> deserialize U r)\<rparr>
           in case config_name st of
                Some config_name' \<Rightarrow>
                  (let iname = fmt (class_name st) @ ''/'' @ config_name'
                   in case instance_info_map reg iname of
                        None \<Rightarrow>
                          (Inl (DBOSWorkflowFunctionNotFoundError wfid
                                 (''Cannot execute workflow because instance '' @ [CHR 0x27]
                                  @ iname @ [CHR 0x27] @ '' is not registered'')), d)
                      | Some inst \<Rightarrow>
                          (case start_workflow K U wf_func
                                  (inputs\<lparr>args := inst # args inputs\<rparr>)
                                  (Some (SetWorkflowID wfid ctx)) d of
                             (r, c', d') \<Rightarrow> (r, d')))
              | None \<Rightarrow>
                  (case class_name st of
                     Some class_name' \<Rightarrow>
                       (case class_info_map reg class_name' of
                          None \<Rightarrow>
                            (Inl (DBOSWorkflowFunctionNotFoundError wfid
                                   (''Cannot execute workflow because class '' @ [CHR 0x27]
                                    @ class_name' @ [CHR 0x27] @ '' is not registered'')), d)
                        | Some cls \<Rightarrow>
                            (case start_workflow K U wf_func
                                    (inputs\<lparr>args := cls # args inputs\<rparr>)
                                    (Some (SetWorkflowID wfid ctx)) d of
                               (r, c', d') \<Rightarrow> (r, d')))
                   | None \<Rightarrow>
                       (case start_workflow K U wf_func inputs
                               (Some (SetWorkflowID wfid ctx)) d of
                          (r, c', d') \<Rightarrow> (r, d')))))))"

section \<open>Coordination primitives: \<open>recv\<close> and \<open>get_event\<close>\<close>

record GetEventWorkflowContext =
  ge_workflow_uuid :: string
  ge_function_id :: int
  ge_timeout_function_id :: int

text \<open>
  \<open>_recv\<close>. \<open>dbos._sys_db.recv\<close> is not in \<open>core.py\<close>: it is the parameter \<open>sys_db_recv\<close>,
  given the workflow id, the function id of the operation, the function id of the
  timeout, the topic and the timeout.
\<close>

definition recv ::
  "(string \<Rightarrow> int \<Rightarrow> int \<Rightarrow> string option \<Rightarrow> rat \<Rightarrow> ('a, 'w) dbos \<Rightarrow> (exn + 'a pyval) \<times> ('a, 'w) dbos) \<Rightarrow>
   'a DBOSContext option \<Rightarrow> string option \<Rightarrow> rat \<Rightarrow> ('a, 'w) dbos \<Rightarrow>
   (exn + 'a pyval) \<times> 'a DBOSContext option \<times> ('a, 'w) dbos" where
  "recv sys_db_recv cur_ctx topic timeout_seconds d =
     (case cur_ctx of
        None \<Rightarrow> (Inl (DBOSException ''recv() must be called from within a workflow''), None, d)
      | Some c \<Rightarrow>
          (if \<not> is_workflow c then
             (Inl (AssertionError ''recv() must be called from within a workflow''), Some c, d)
           else
             (let ctx0 = EnterDBOSStep_enter c;
                  ctx = ctx0\<lparr>function_id := function_id ctx0 + 1\<rparr>;
                  timeout_function_id = function_id ctx;
                  (r, d') = sys_db_recv (workflow_id ctx) (curr_step_function_id ctx)
                              timeout_function_id topic timeout_seconds d
              in (r, Some (EnterDBOSStep_exit ctx), d'))))"

text \<open>
  \<open>_get_event\<close>. \<open>dbos._sys_db.get_event\<close> is the parameter \<open>sys_db_get_event\<close>, given the
  target workflow id, the key, the timeout and the caller's context when there is one.
\<close>

definition get_event ::
  "(string \<Rightarrow> string \<Rightarrow> rat \<Rightarrow> GetEventWorkflowContext option \<Rightarrow> ('a, 'w) dbos \<Rightarrow>
      (exn + 'a pyval) \<times> ('a, 'w) dbos) \<Rightarrow>
   'a DBOSContext option \<Rightarrow> string \<Rightarrow> string \<Rightarrow> rat \<Rightarrow> ('a, 'w) dbos \<Rightarrow>
   (exn + 'a pyval) \<times> 'a DBOSContext option \<times> ('a, 'w) dbos" where
  "get_event sys_db_get_event cur_ctx wfid key timeout_seconds d =
     (let outside = (let (r, d') = sys_db_get_event wfid key timeout_seconds None d
                     in (r, cur_ctx, d'))
      in case cur_ctx of
           None \<Rightarrow> outside
         | Some c \<Rightarrow>
             (if is_within_workflow c then
                (if \<not> is_workflow c then
                   (Inl (AssertionError ''get_event() must be called from within a workflow''),
                    Some c, d)
                 else
                   (let ctx0 = EnterDBOSStep_enter c;
                        ctx = ctx0\<lparr>function_id := function_id ctx0 + 1\<rparr>;
                        timeout_function_id = function_id ctx;
                        caller_ctx = \<lparr>ge_workflow_uuid = workflow_id ctx,
                                      ge_function_id = curr_step_function_id ctx,
                                      ge_timeout_function_id = timeout_function_id\<rparr>;
                        (r, d') = sys_db_get_event wfid key timeout_seconds (Some caller_ctx) d
                    in (r, Some (EnterDBOSStep_exit ctx), d')))
              else outside))"

section \<open>Concrete inputs\<close>

definition ex_utils :: "string utils" where
  "ex_utils =
     \<lparr>serialize = (\<lambda>v. case v of PyNone \<Rightarrow> ''null'' | PyObject s \<Rightarrow> s),
      deserialize = (\<lambda>s. if s = ''null'' then PyNone else PyObject s),
      serialize_error =
        (\<lambda>e. case e of DBOSMaxStepRetriesExceeded \<Rightarrow> ''DBOSMaxStepRetriesExceeded''
              | UserError m \<Rightarrow> m | _ \<Rightarrow> ''Exception''),
      deserialize_error = UserError,
      serialize_inputs = (\<lambda>i. concat (map (\<lambda>v. case v of PyNone \<Rightarrow> ''null,'' | PyObject s \<Rightarrow> s @ '','') (args i))),
      deserialize_inputs = (\<lambda>s. \<lparr>args = [PyObject s], kwargs = []\<rparr>),
      json_dumps = concat\<rparr>"

definition ex_ctx :: "string DBOSContext" where
  "ex_ctx =
     \<lparr>workflow_id = ''wf'', function_id = 0, curr_step_function_id = - 1,
      id_assigned_for_next_workflow = [], sql_session = False, in_recovery = False,
      request = PyNone, app_id = [], app_version = [], executor_id = ''local'',
      authenticated_user = None, authenticated_roles = None, assumed_role = None\<rparr>"

definition ex_dbos :: "(string, nat) dbos" where
  "ex_dbos =
     \<lparr>operation_outputs = (\<lambda>k. None), transaction_outputs = (\<lambda>k. None),
      workflow_status = (\<lambda>k. None), workflow_inputs = (\<lambda>k. None),
      status_buffer = [], inputs_buffer = [], submitted = [],
      duplicate_key_error = Some (DBOSWorkflowConflictIDError ''wf''),
      error_record_calls = 0, platform_sleep_limit = 9200000000,
      slept = [], calls = 0, app = 0\<rparr>"

text \<open>A body that raises on every execution and counts its executions in \<open>app\<close>.\<close>

definition failing_body :: "(string, nat) pyfunc" where
  "failing_body = \<lparr>fn_name = ''flaky'', fn_body = (\<lambda>w. (Inl (UserError ''boom''), Suc w))\<rparr>"


definition no_retry_cfg :: step_config where
  "no_retry_cfg =
     \<lparr>retries_allowed = False, interval_seconds = Float 1, max_attempts = 3,
      backoff_rate = Float 2\<rparr>"

definition replay_dbos :: "(string, nat) dbos" where
  "replay_dbos =
     ex_dbos\<lparr>operation_outputs :=
       (\<lambda>k. if k = (''wf'', 1) then Some \<lparr>r_output = Some ''ten'', r_error = None\<rparr> else None)\<rparr>"

definition conflicting_body :: "(string, nat) pyfunc" where
  "conflicting_body =
     \<lparr>fn_name = ''transfer'',
      fn_body = (\<lambda>w. (if w < 2 then Inl (DBAPIError (Some ''40001''))
                       else Inr (PyObject ''done''), Suc w))\<rparr>"


definition ex_status :: "string option \<Rightarrow> string option \<Rightarrow> WorkflowStatusInternal" where
  "ex_status cls cfg =
     \<lparr>workflow_uuid = ''wf'', status = ''PENDING'', name = ''my_workflow'',
      class_name = cls, config_name = cfg, st_output = None, st_error = None,
      st_app_id = [], st_app_version = [], st_executor_id = ''local'', st_request = None,
      recovery_attempts = None, st_authenticated_user = None,
      st_authenticated_roles = None, st_assumed_role = None\<rparr>"

definition ex_workflow :: "(exn + string pyval) \<Rightarrow> (string, nat) workflow" where
  "ex_workflow outcome =
     \<lparr>wf_name = ''my_workflow'', wf_self = None, registered = True,
      dbos_func_name = ''my_workflow'', dbos_class_name = (\<lambda>a. None),
      dbos_config_name = (\<lambda>a. None), temp_workflow_type = None,
      wf_body = (\<lambda>i d. (outcome, d\<lparr>app := Suc (app d)\<rparr>))\<rparr>"

definition ex_inputs :: "string WorkflowInputs" where
  "ex_inputs = \<lparr>args = [PyObject ''5''], kwargs = []\<rparr>"

definition ex_await :: "string \<Rightarrow> exn + string pyval" where
  "ex_await wfid = Inr (PyObject (''result of '' @ wfid))"

definition ex_context_api :: "string context_api" where
  "ex_context_api =
     \<lparr>new_context = ex_ctx\<lparr>workflow_id := []\<rparr>,
      create_child =
        (\<lambda>c. (ex_ctx\<lparr>workflow_id := [],
                      id_assigned_for_next_workflow := id_assigned_for_next_workflow c\<rparr>,
               c\<lparr>id_assigned_for_next_workflow := []\<rparr>)),
      assign_workflow_id =
        (\<lambda>c. if id_assigned_for_next_workflow c = [] then ''fresh-uuid''
              else id_assigned_for_next_workflow c)\<rparr>"

definition ex_registry :: "(string, nat) registry" where
  "ex_registry =
     \<lparr>workflow_info_map =
        (\<lambda>n. if n = ''my_workflow'' then Some (ex_workflow (Inr PyNone)) else None),
      class_info_map = (\<lambda>n. None), instance_info_map = (\<lambda>n. None)\<rparr>"

definition recovery_dbos ::
  "WorkflowStatusInternal option \<Rightarrow> string option \<Rightarrow> (string, nat) dbos" where
  "recovery_dbos st inputs =
     ex_dbos\<lparr>workflow_status := (\<lambda>k. if k = ''wf'' then st else None),
             workflow_inputs := (\<lambda>k. if k = ''wf'' then inputs else None)\<rparr>"

text \<open>
  A system database for the two timed waits that times out at once: \<open>recv\<close> and
  \<open>get_event\<close> return \<open>None\<close>, recorded under the caller's function id when there is one.
\<close>

definition ex_sys_db_recv ::
  "string \<Rightarrow> int \<Rightarrow> int \<Rightarrow> string option \<Rightarrow> rat \<Rightarrow> (string, nat) dbos \<Rightarrow>
   (exn + string pyval) \<times> (string, nat) dbos" where
  "ex_sys_db_recv wfid fid timeout_fid topic timeout_seconds d =
     (Inr PyNone,
      d\<lparr>operation_outputs := (operation_outputs d)
          ((wfid, fid) \<mapsto> \<lparr>r_output = Some ''null'', r_error = None\<rparr>,
           (wfid, timeout_fid) \<mapsto> \<lparr>r_output = Some ''slept'', r_error = None\<rparr>)\<rparr>)"

definition ex_sys_db_get_event ::
  "string \<Rightarrow> string \<Rightarrow> rat \<Rightarrow> GetEventWorkflowContext option \<Rightarrow> (string, nat) dbos \<Rightarrow>
   (exn + string pyval) \<times> (string, nat) dbos" where
  "ex_sys_db_get_event wfid key timeout_seconds caller_ctx d =
     (case caller_ctx of
        None \<Rightarrow> (Inr PyNone, d)
      | Some cc \<Rightarrow>
          (Inr PyNone,
           d\<lparr>operation_outputs := (operation_outputs d)
               ((ge_workflow_uuid cc, ge_function_id cc) \<mapsto>
                  \<lparr>r_output = Some ''null'', r_error = None\<rparr>,
                (ge_workflow_uuid cc, ge_timeout_function_id cc) \<mapsto>
                  \<lparr>r_output = Some ''slept'', r_error = None\<rparr>)\<rparr>))"

section \<open>Properties of the step engine\<close>

lemma call_func_outcome:
  "call_func func d =
     (fst (fn_body func (app d)), d\<lparr>calls := calls d + 1, app := snd (fn_body func (app d))\<rparr>)"
  by (simp add: call_func_def split: prod.splits)

text \<open>\<open>time.sleep\<close> sleeps exactly the durations it accepts, and raises on every other.\<close>

lemma time_sleep_accepts:
  "sleep_accepts (sleep_limit d) secs \<Longrightarrow>
   time_sleep secs d = (None, d\<lparr>slept := slept d @ [seconds secs]\<rparr>)"
  by (cases secs) (auto simp: sleep_accepts_def time_sleep_def)

lemma time_sleep_rejects:
  "\<not> sleep_accepts (sleep_limit d) secs \<Longrightarrow> \<exists>e. time_sleep secs d = (Some e, d)"
  by (cases secs) (auto simp: sleep_accepts_def time_sleep_def)

lemma time_sleep_short:
  "0 \<le> r \<Longrightarrow> r \<le> 3600 \<Longrightarrow> time_sleep (Float r) d = (None, d\<lparr>slept := slept d @ [r]\<rparr>)"
  using time_sleep_accepts[of d "Float r"] by (simp add: sleep_accepts_def sleep_limit_def)


text \<open>
  C1. A step invoked in a workflow whose key \<open>(workflow_id, function_id)\<close> (the
  \<open>function_id\<close> the step scope has just reserved) already has a recorded operation result
  does not execute the user function body: the whole state, with its call counter and the
  user's \<open>app\<close>, is as before. A non-null recorded error is deserialized and raised; else a
  non-null recorded output is deserialized and returned; else an exception is raised.
\<close>

theorem invoke_step_replay:
  assumes "operation_outputs d (workflow_id c, function_id c + 1) = Some recorded"
  shows "invoke_step cfg U func (Some d) c =
           ((case r_error recorded of
               Some e \<Rightarrow> Inl (deserialize_error U e)
             | None \<Rightarrow>
                 (case r_output recorded of
                    Some out \<Rightarrow> Inr (deserialize U out)
                  | None \<Rightarrow> Inl (Exception ''Output and error are both None''))),
            c\<lparr>function_id := function_id c + 1, curr_step_function_id := - 1\<rparr>,
            Some d)"
  using assms
  by (simp add: invoke_step_def check_operation_execution_def EnterDBOSStep_enter_def
      EnterDBOSStep_exit_def split: option.splits)

theorem invoke_step_replay_witness:
  "operation_outputs replay_dbos (workflow_id ex_ctx, function_id ex_ctx + 1) =
     Some \<lparr>r_output = Some ''ten'', r_error = None\<rparr>
   \<and> invoke_step no_retry_cfg ex_utils failing_body (Some replay_dbos) ex_ctx =
       (Inr (PyObject ''ten''),
        ex_ctx\<lparr>function_id := 1, curr_step_function_id := - 1\<rparr>, Some replay_dbos)"
proof -
  have h: "operation_outputs replay_dbos (workflow_id ex_ctx, function_id ex_ctx + 1) =
     Some \<lparr>r_output = Some ''ten'', r_error = None\<rparr>"
    by (simp add: replay_dbos_def ex_ctx_def)
  show ?thesis
    using h invoke_step_replay [OF h, of no_retry_cfg ex_utils failing_body]
    by (simp add: ex_utils_def ex_ctx_def)
qed




text \<open>
  C10. A step without \<open>retries_allowed\<close>, with no recorded result, whose body raises: the body
  is executed exactly once, the recorded operation result holds the serialized underlying
  exception as its error (and no output), and that same exception is raised to the caller.
\<close>

theorem invoke_step_no_retry_failure:
  assumes "\<not> retries_allowed cfg"
    and "operation_outputs d (workflow_id c, function_id c + 1) = None"
    and "fn_body func (app d) = (Inl err, w)"
  shows "invoke_step cfg U func (Some d) c =
           (Inl err,
            c\<lparr>function_id := function_id c + 1, curr_step_function_id := - 1\<rparr>,
            Some (d\<lparr>calls := calls d + 1, app := w,
                    operation_outputs := (operation_outputs d)
                      ((workflow_id c, function_id c + 1) \<mapsto>
                         \<lparr>r_output = None, r_error = Some (serialize_error U err)\<rparr>)\<rparr>))"
  using assms
  by (simp add: invoke_step_def check_operation_execution_def EnterDBOSStep_enter_def
      EnterDBOSStep_exit_def call_func_def record_operation_result_def)

theorem invoke_step_no_retry_failure_witness:
  "\<not> retries_allowed no_retry_cfg
   \<and> operation_outputs ex_dbos (workflow_id ex_ctx, function_id ex_ctx + 1) = None
   \<and> fn_body failing_body (app ex_dbos) = (Inl (UserError ''boom''), 1)
   \<and> invoke_step no_retry_cfg ex_utils failing_body (Some ex_dbos) ex_ctx =
       (Inl (UserError ''boom''),
        ex_ctx\<lparr>function_id := 1, curr_step_function_id := - 1\<rparr>,
        Some (ex_dbos\<lparr>calls := 1, app := 1,
                operation_outputs := (operation_outputs ex_dbos)
                  ((''wf'', 1) \<mapsto> \<lparr>r_output = None, r_error = Some ''boom''\<rparr>)\<rparr>))"
proof -
  have h: "\<not> retries_allowed no_retry_cfg"
    "operation_outputs ex_dbos (workflow_id ex_ctx, function_id ex_ctx + 1) = None"
    "fn_body failing_body (app ex_dbos) = (Inl (UserError ''boom''), 1)"
    by (simp_all add: no_retry_cfg_def ex_dbos_def failing_body_def)
  show ?thesis
    using h invoke_step_no_retry_failure [OF h, of ex_utils]
    by (simp add: ex_utils_def ex_ctx_def ex_dbos_def)
qed

section \<open>Properties of the transaction engine\<close>

lemma pow_ge1: "(1::rat) \<le> (3 / 2) ^ k"
  by (rule one_le_power) simp

lemma waits_from_closed:
  "0 < r \<Longrightarrow> r \<le> 2 \<Longrightarrow> waits_from r n = map (\<lambda>k. min (r * (3 / 2) ^ k) 2) [0..<n]"
proof (induction n arbitrary: r)
  case 0
  then show ?case by simp
next
  case (Suc n)
  let ?r' = "min (r * (3 / 2)) 2"
  have r': "0 < ?r'" "?r' \<le> 2" using Suc.prems by simp_all
  have eq: "min (?r' * (3 / 2) ^ k) 2 = min (r * (3 / 2) ^ Suc k) 2" for k
  proof (cases "r * (3 / 2) \<le> 2")
    case True
    then show ?thesis by (simp add: min_def mult.assoc)
  next
    case False
    then have a: "?r' = 2" by (simp add: min_def)
    have b: "(2::rat) \<le> 2 * (3 / 2) ^ k" using pow_ge1[of k] by simp
    have lt: "2 < r * (3 / 2)" using False by simp
    have "r * (3 / 2) * 1 \<le> r * (3 / 2) * (3 / 2) ^ k"
      using pow_ge1[of k] Suc.prems(1) by (intro mult_left_mono) simp_all
    moreover have "r * (3 / 2) ^ Suc k = r * (3 / 2) * (3 / 2) ^ k"
      by simp
    ultimately have c: "2 \<le> r * (3 / 2) ^ Suc k" using lt by linarith
    have l: "min (?r' * (3 / 2) ^ k) 2 = 2"
      unfolding a using b by (rule min_absorb2)
    have rr: "min (r * (3 / 2) ^ Suc k) 2 = 2"
      using c by (rule min_absorb2)
    show ?thesis by (simp only: l rr)
  qed
  have "map (\<lambda>k. min (r * (3 / 2) ^ k) 2) [0..<Suc n]
      = min (r * (3 / 2) ^ 0) 2 # map (\<lambda>k. min (r * (3 / 2) ^ Suc k) 2) [0..<n]"
    by (simp only: upt_conv_Cons[of 0 "Suc n"] list.map map_Suc_upt[symmetric] map_map o_def)
  also have "\<dots> = r # map (\<lambda>k. min (?r' * (3 / 2) ^ k) 2) [0..<n]"
    using Suc.prems eq by simp
  also have "\<dots> = r # waits_from ?r' n"
    using Suc.IH[OF r'] by simp
  finally show ?case by simp
qed

lemma tx_loop_last:
  assumes "transaction_outputs d (workflow_id ctx, function_id ctx) = None"
    and "txn_workflow_uuid t = workflow_id ctx" and "txn_function_id t = function_id ctx"
    and "sql_session ctx"
    and "fst (fn_body func (app d)) \<noteq> Inl (DBAPIError (Some ''40001''))"
  shows "\<exists>d'. invoke_tx_loop (Suc fuel) U func ctx r t d = Some (fst (fn_body func (app d)), d')
     \<and> calls d' = calls d + 1 \<and> slept d' = slept d"
proof (cases "fst (fn_body func (app d))")
  case (Inr out)
  then show ?thesis using assms
    by (simp add: tx_try_block_def check_transaction_execution_def call_func_outcome
        record_transaction_output_def)
next
  case (Inl e)
  then show ?thesis using assms
    by (cases e)
      (simp_all add: tx_try_block_def check_transaction_execution_def call_func_outcome
        record_transaction_error_def)
qed

lemma tx_loop_conflicts:
  assumes "txn_workflow_uuid t = workflow_id ctx" and "txn_function_id t = function_id ctx"
    and "sql_session ctx"
    and "fst (fn_body func (app_after n func (app d))) \<noteq> Inl (DBAPIError (Some ''40001''))"
  shows "transaction_outputs d (workflow_id ctx, function_id ctx) = None \<Longrightarrow>
     conflicts n func (app d) \<Longrightarrow> 0 \<le> r \<Longrightarrow> r \<le> 2 \<Longrightarrow>
     \<exists>d'. invoke_tx_loop (Suc (n + k)) U func ctx r t d =
             Some (fst (fn_body func (app_after n func (app d))), d')
       \<and> calls d' = calls d + Suc n \<and> slept d' = slept d @ waits_from r n"
  using assms(4)
proof (induction n arbitrary: d r)
  case 0
  then show ?case
    using tx_loop_last[of d ctx t func k U r] assms(1-3) by simp
next
  case (Suc n)
  let ?d1 = "d\<lparr>calls := calls d + 1, app := snd (fn_body func (app d))\<rparr>"
  let ?d2 = "?d1\<lparr>slept := slept ?d1 @ [r]\<rparr>"
  have first: "fst (fn_body func (app d)) = Inl (DBAPIError (Some ''40001''))"
    using Suc.prems(2) by simp
  have step: "invoke_tx_loop (Suc (Suc n + k)) U func ctx r t d
      = invoke_tx_loop (Suc (n + k)) U func ctx (min (r * (3 / 2)) 2) t ?d2"
    using Suc.prems(1,3,4) first
    by (simp add: tx_try_block_def check_transaction_execution_def call_func_outcome
        time_sleep_short)
  have "\<exists>d'. invoke_tx_loop (Suc (n + k)) U func ctx (min (r * (3 / 2)) 2) t ?d2 =
             Some (fst (fn_body func (app_after n func (app ?d2))), d')
       \<and> calls d' = calls ?d2 + Suc n \<and> slept d' = slept ?d2 @ waits_from (min (r * (3 / 2)) 2) n"
    using Suc.prems by (intro Suc.IH) simp_all
  then show ?case unfolding step by simp
qed


text \<open>
  The number of retries is unbounded: as long as the body keeps raising serialization
  failures the loop keeps running, whatever the fuel.
\<close>

lemma tx_loop_keeps_retrying:
  "transaction_outputs d (workflow_id ctx, function_id ctx) = None \<Longrightarrow>
   conflicts fuel func (app d) \<Longrightarrow> 0 \<le> r \<Longrightarrow> r \<le> 2 \<Longrightarrow>
   invoke_tx_loop fuel U func ctx r t d = None"
proof (induction fuel arbitrary: d r)
  case 0
  then show ?case by simp
next
  case (Suc fuel)
  let ?d1 = "d\<lparr>calls := calls d + 1, app := snd (fn_body func (app d))\<rparr>"
  let ?d2 = "?d1\<lparr>slept := slept ?d1 @ [r]\<rparr>"
  have first: "fst (fn_body func (app d)) = Inl (DBAPIError (Some ''40001''))"
    using Suc.prems(2) by simp
  have step: "invoke_tx_loop (Suc fuel) U func ctx r t d
      = invoke_tx_loop fuel U func ctx (min (r * (3 / 2)) 2) t ?d2"
    using Suc.prems(1,3,4) first
    by (simp add: tx_try_block_def check_transaction_execution_def call_func_outcome
        time_sleep_short)
  have "invoke_tx_loop fuel U func ctx (min (r * (3 / 2)) 2) t ?d2 = None"
    using Suc.prems by (intro Suc.IH) simp_all
  then show ?case unfolding step .
qed

text \<open>
  C3. A transaction with no recorded row whose body raises a \<open>DBAPIError\<close> with SQLSTATE
  40001 on its first \<open>n\<close> executions, for any \<open>n\<close>, and ends otherwise on the next one (by
  returning, or by raising an error that is not such a serialization failure): the loop
  retries \<open>n\<close> times, sleeping before each retry 1 ms, 1.5 ms, 2.25 ms and so on, capped at
  2 s; the execution after the last conflict is the last one, and its outcome (the value,
  or the error that is not retried) is the outcome of the invocation. The fuel only has to
  exceed \<open>n\<close>.
\<close>

theorem invoke_tx_serialization_retry:
  assumes "transaction_outputs d (workflow_id c, function_id c + 1) = None"
    and "conflicts n func (app d)"
    and "fst (fn_body func (app_after n func (app d))) \<noteq> Inl (DBAPIError (Some ''40001''))"
    and "n < fuel"
  shows "\<exists>d'. invoke_tx fuel U func (Some d) c =
             Some (fst (fn_body func (app_after n func (app d))),
                   c\<lparr>function_id := function_id c + 1, sql_session := False\<rparr>, Some d')
         \<and> calls d' = calls d + Suc n
         \<and> slept d' = slept d @ serialization_retry_waits n"
proof -
  let ?ctx = "EnterDBOSTransaction_enter c"
  let ?t = "\<lparr>txn_workflow_uuid = workflow_id ?ctx, txn_function_id = function_id ?ctx,
             txn_output_field = None, txn_error_field = None\<rparr>"
  obtain k where fuel: "fuel = Suc (n + k)"
    using assms(4) less_iff_Suc_add by auto
  have key: "transaction_outputs d (workflow_id ?ctx, function_id ?ctx) = None"
    using assms(1) by (simp add: EnterDBOSTransaction_enter_def)
  have "\<exists>d'. invoke_tx_loop (Suc (n + k)) U func ?ctx (1 / 1000) ?t d =
             Some (fst (fn_body func (app_after n func (app d))), d')
       \<and> calls d' = calls d + Suc n \<and> slept d' = slept d @ waits_from (1 / 1000) n"
    using key assms(2,3)
    by (intro tx_loop_conflicts) (simp_all add: EnterDBOSTransaction_enter_def)
  then obtain d' where
    "invoke_tx_loop fuel U func ?ctx (1 / 1000) ?t d =
       Some (fst (fn_body func (app_after n func (app d))), d')"
    "calls d' = calls d + Suc n" "slept d' = slept d @ waits_from (1 / 1000) n"
    unfolding fuel by blast
  moreover have "waits_from (1 / 1000) n = serialization_retry_waits n"
    unfolding serialization_retry_waits_def by (rule waits_from_closed) simp_all
  ultimately show ?thesis
    by (simp add: invoke_tx_def Let_def EnterDBOSTransaction_enter_def
        EnterDBOSTransaction_exit_def)
qed

theorem invoke_tx_serialization_retry_witness:
  "transaction_outputs ex_dbos (workflow_id ex_ctx, function_id ex_ctx + 1) = None
   \<and> conflicts 2 conflicting_body (app ex_dbos)
   \<and> fst (fn_body conflicting_body (app_after 2 conflicting_body (app ex_dbos)))
       \<noteq> Inl (DBAPIError (Some ''40001''))
   \<and> (2::nat) < 3
   \<and> (\<exists>d'. invoke_tx 3 ex_utils conflicting_body (Some ex_dbos) ex_ctx =
             Some (Inr (PyObject ''done''),
                   ex_ctx\<lparr>function_id := 1, sql_session := False\<rparr>, Some d')
         \<and> calls d' = 3
         \<and> slept d' = [1 / 1000, 3 / 2000])"
proof -
  have h: "transaction_outputs ex_dbos (workflow_id ex_ctx, function_id ex_ctx + 1) = None"
    "conflicts 2 conflicting_body (app ex_dbos)"
    "fst (fn_body conflicting_body (app_after 2 conflicting_body (app ex_dbos)))
       \<noteq> Inl (DBAPIError (Some ''40001''))"
    "(2::nat) < 3"
    by (simp_all add: ex_dbos_def conflicting_body_def numeral_2_eq_2)
  have v: "fst (fn_body conflicting_body (app_after 2 conflicting_body (app ex_dbos)))
       = Inr (PyObject ''done'')"
    "serialization_retry_waits 2 = [1 / 1000, 3 / 2000]"
    by (simp_all add: ex_dbos_def conflicting_body_def numeral_2_eq_2
        serialization_retry_waits_def)
  from invoke_tx_serialization_retry [OF h, of ex_utils]
  have "\<exists>d'. invoke_tx 3 ex_utils conflicting_body (Some ex_dbos) ex_ctx =
             Some (Inr (PyObject ''done''),
                   ex_ctx\<lparr>function_id := 1, sql_session := False\<rparr>, Some d')
         \<and> calls d' = 3
         \<and> slept d' = [1 / 1000, 3 / 2000]"
    unfolding v by (simp add: ex_dbos_def ex_ctx_def)
  then show ?thesis using h by blast
qed

text \<open>
  The engine records no \<open>DBAPIError\<close>: every error that the loop adds to the
  transaction-result table is the serialization of an exception of another kind.
\<close>

lemma tx_try_block_raise_table:
  "tx_try_block U func ctx t d = (Raise e h, t1, d1) \<Longrightarrow>
   transaction_outputs d1 = transaction_outputs d"
  by (auto simp: tx_try_block_def call_func_outcome record_transaction_output_def Let_def
      split: option.splits if_splits sum.splits prod.splits)

lemma tx_try_block_new_row:
  "tx_try_block U func ctx t d = (outcome, t1, d1) \<Longrightarrow> transaction_outputs d k = None \<Longrightarrow>
   transaction_outputs d1 k = Some row \<Longrightarrow> r_error row = None"
  by (auto simp: tx_try_block_def call_func_outcome record_transaction_output_def Let_def
      split: option.splits if_splits sum.splits prod.splits)

lemma invoke_tx_loop_records_no_DBAPIError:
  "invoke_tx_loop fuel U func ctx r t d = Some (res, d') \<Longrightarrow>
   transaction_outputs d k = None \<Longrightarrow> transaction_outputs d' k = Some row \<Longrightarrow>
   r_error row = Some s \<Longrightarrow>
   \<exists>e. s = serialize_error U e \<and> (\<forall>sqlstate. e \<noteq> DBAPIError sqlstate)"
proof (induction fuel arbitrary: r t d)
  case 0
  then show ?case by simp
next
  case (Suc fuel)
  obtain outcome t1 d1 where tb: "tx_try_block U func ctx t d = (outcome, t1, d1)"
    by (cases "tx_try_block U func ctx t d") auto
  show ?case
  proof (cases outcome)
    case (Return v)
    then show ?thesis
      using Suc.prems tb tx_try_block_new_row[OF tb Suc.prems(2), of row] by auto
  next
    case (Break v)
    then show ?thesis
      using Suc.prems tb tx_try_block_new_row[OF tb Suc.prems(2), of row] by auto
  next
    case (Raise e h)
    have tab: "transaction_outputs d1 = transaction_outputs d"
      using tb Raise tx_try_block_raise_table by blast
    show ?thesis
    proof (cases "\<exists>sqlstate. e = DBAPIError sqlstate")
      case True
      then obtain sqlstate where e: "e = DBAPIError sqlstate" by blast
      show ?thesis
      proof (cases "sqlstate = Some ''40001''")
        case True
        obtain eo d2 where ts: "time_sleep (Float r) d1 = (eo, d2)"
          by (cases "time_sleep (Float r) d1") auto
        have tab2: "transaction_outputs d2 = transaction_outputs d1"
          using ts by (auto simp: time_sleep_def split: if_splits)
        show ?thesis
        proof (cases eo)
          case None
          then have "invoke_tx_loop fuel U func ctx (min (r * (3 / 2)) 2) t1 d2 = Some (res, d')"
            using Suc.prems(1) tb Raise e True ts by simp
          moreover have "transaction_outputs d2 k = None"
            using tab tab2 Suc.prems(2) by simp
          ultimately show ?thesis using Suc.IH Suc.prems(3,4) by blast
        next
          case (Some e')
          then have "d' = d2"
            using Suc.prems(1) tb Raise e True ts by simp
          then show ?thesis using tab tab2 Suc.prems by simp
        qed
      next
        case False
        then have "d' = d1"
          using Suc.prems(1) tb Raise e by auto
        then show ?thesis using tab Suc.prems by simp
      qed
    next
      case False
      then have res: "(if \<not> h then
                  (case record_transaction_error
                          (t1\<lparr>txn_error_field := Some (serialize_error U e)\<rparr>) d1 of
                     (Some e', d2) \<Rightarrow> Some (Inl e', d2)
                   | (None, d2) \<Rightarrow> Some (Inl e, d2))
                else Some (Inl e, d1)) = Some (res, d')"
        using Suc.prems(1) tb Raise by (cases e) (auto split: if_splits)
      then have "s = serialize_error U e"
        using tab Suc.prems(2,3,4)
        by (auto simp: record_transaction_error_def Let_def
            split: if_splits option.splits prod.splits)
      then show ?thesis using False by blast
    qed
  qed
qed

text \<open>
  Replay of a recorded error or output. A transaction invoked with a recorded row at its
  key that holds an error, or else an output, does not execute the user function body and
  leaves the state as it was, \<open>record_transaction_error\<close> not called: the error is
  deserialized and raised, the output deserialized and returned. The engine tests the
  payloads by truth value, so they are taken to be non-empty; and the recorded error is
  taken not to deserialize to a serialization failure, for which see
  \<open>tx_replay_serialization_failure_loops\<close>.
\<close>

lemma tx_replay_recorded_row:
  assumes "transaction_outputs d (workflow_id c, function_id c + 1) = Some recorded"
    and "truthy (r_error recorded) \<or> truthy (r_output recorded)"
    and "r_error recorded \<noteq> Some []"
    and "map_option (deserialize_error U) (r_error recorded) \<noteq> Some (DBAPIError (Some ''40001''))"
  shows "invoke_tx (Suc fuel) U func (Some d) c =
           Some ((case r_error recorded of
                    Some e \<Rightarrow> Inl (deserialize_error U e)
                  | None \<Rightarrow>
                      (case r_output recorded of
                         Some out \<Rightarrow> Inr (deserialize U out)
                       | None \<Rightarrow> Inr PyNone)),
                 c\<lparr>function_id := function_id c + 1, sql_session := False\<rparr>, Some d)"
proof (cases "r_error recorded")
  case None
  then show ?thesis using assms
    by (cases "r_output recorded")
      (simp_all add: invoke_tx_def Let_def EnterDBOSTransaction_enter_def
        EnterDBOSTransaction_exit_def tx_try_block_def check_transaction_execution_def
        truthy_def)
next
  case (Some e)
  then show ?thesis using assms
    by (cases "deserialize_error U e")
      (simp_all add: invoke_tx_def Let_def EnterDBOSTransaction_enter_def
        EnterDBOSTransaction_exit_def tx_try_block_def check_transaction_execution_def
        truthy_def)
qed

text \<open>
  The replayed error is raised inside the \<open>try\<close> block of the retry loop. A recorded error
  that deserializes to a \<open>DBAPIError\<close> with SQLSTATE 40001 is therefore handled as a fresh
  serialization failure: the loop sleeps and replays it again, whatever the fuel.
\<close>

lemma tx_loop_replays_serialization_failure:
  "transaction_outputs d (workflow_id ctx, function_id ctx) = Some recorded \<Longrightarrow>
   r_error recorded = Some e \<Longrightarrow> e \<noteq> [] \<Longrightarrow>
   deserialize_error U e = DBAPIError (Some ''40001'') \<Longrightarrow> 0 \<le> r \<Longrightarrow> r \<le> 2 \<Longrightarrow>
   invoke_tx_loop fuel U func ctx r t d = None"
proof (induction fuel arbitrary: d r)
  case 0
  then show ?case by simp
next
  case (Suc fuel)
  let ?d2 = "d\<lparr>slept := slept d @ [r]\<rparr>"
  have step: "invoke_tx_loop (Suc fuel) U func ctx r t d
      = invoke_tx_loop fuel U func ctx (min (r * (3 / 2)) 2) t ?d2"
    using Suc.prems
    by (simp add: tx_try_block_def check_transaction_execution_def truthy_def time_sleep_short)
  have "invoke_tx_loop fuel U func ctx (min (r * (3 / 2)) 2) t ?d2 = None"
    using Suc.prems by (intro Suc.IH) simp_all
  then show ?case unfolding step .
qed

lemma tx_replay_serialization_failure_loops:
  assumes "transaction_outputs d (workflow_id c, function_id c + 1) = Some recorded"
    and "r_error recorded = Some e" and "e \<noteq> []"
    and "deserialize_error U e = DBAPIError (Some ''40001'')"
  shows "invoke_tx fuel U func (Some d) c = None"
proof -
  have "invoke_tx_loop fuel U func (EnterDBOSTransaction_enter c) (1 / 1000)
          \<lparr>txn_workflow_uuid = workflow_id (EnterDBOSTransaction_enter c),
           txn_function_id = function_id (EnterDBOSTransaction_enter c),
           txn_output_field = None, txn_error_field = None\<rparr> d = None"
    using assms
    by (intro tx_loop_replays_serialization_failure[of _ _ recorded e])
      (simp_all add: EnterDBOSTransaction_enter_def)
  then show ?thesis by (simp add: invoke_tx_def Let_def)
qed



section \<open>Properties of the workflow engine, recovery and the timed waits\<close>

text \<open>
  C6. A workflow body that returns: the status becomes \<open>SUCCESS\<close> with the serialized
  output and is appended to the status buffer, the status table being as the body left
  it. A workflow body that raises anything but \<open>DBOSWorkflowConflictIDError\<close>: the status
  becomes \<open>ERROR\<close> with the serialized error and is written to the status table at
  once, the buffer being as the body left it, and the exception is raised to the caller.
\<close>

theorem execute_workflow_terminal_status:
  assumes "\<forall>x. fst (wf_body func inputs d) \<noteq> Inl (DBOSWorkflowConflictIDError x)"
  shows "execute_workflow U await_workflow_result st func inputs d =
           (case fst (wf_body func inputs d) of
              Inr out \<Rightarrow>
                (Inr out,
                 st\<lparr>status := ''SUCCESS'', st_output := Some (serialize U out)\<rparr>,
                 (snd (wf_body func inputs d))
                   \<lparr>status_buffer := status_buffer (snd (wf_body func inputs d))
                      @ [st\<lparr>status := ''SUCCESS'', st_output := Some (serialize U out)\<rparr>]\<rparr>)
            | Inl error \<Rightarrow>
                (Inl error,
                 st\<lparr>status := ''ERROR'', st_error := Some (serialize_error U error)\<rparr>,
                 (snd (wf_body func inputs d))
                   \<lparr>workflow_status := (workflow_status (snd (wf_body func inputs d)))
                      (workflow_uuid st \<mapsto>
                         st\<lparr>status := ''ERROR'', st_error := Some (serialize_error U error)\<rparr>)\<rparr>))"
proof (cases "wf_body func inputs d")
  case (Pair r d1)
  show ?thesis
  proof (cases r)
    case (Inr out)
    then show ?thesis using Pair
      by (simp add: execute_workflow_def buffer_workflow_status_def Let_def)
  next
    case (Inl error)
    then show ?thesis using Pair assms
      by (cases error)
        (simp_all add: execute_workflow_def update_workflow_status_def Let_def split: option.splits)
  qed
qed

text \<open>
  C7. A workflow body that raises \<open>DBOSWorkflowConflictIDError\<close>: the execution writes
  nothing (the \<open>status\<close> dictionary and the state are as the body left them) and its
  outcome is the awaited result of the polling handle for the id in \<open>status\<close>. That
  outcome depends on the id alone, so every execution that meets the conflict on one id
  has the same outcome.
\<close>

theorem execute_workflow_conflict:
  assumes "fst (wf_body func inputs d) = Inl (DBOSWorkflowConflictIDError x)"
  shows "execute_workflow U await_workflow_result st func inputs d =
           (await_workflow_result (workflow_uuid st), st, snd (wf_body func inputs d))"
  using assms
  by (cases "wf_body func inputs d")
    (simp add: execute_workflow_def retrieve_workflow_def polling_get_result_def Let_def)

text \<open>
  C4. \<open>_start_workflow\<close> called in a workflow (and not in a step or transaction), with no
  id assigned for the next workflow and a registered function. The caller's \<open>function_id\<close>
  is incremented first, and the id reserved in the caller's context is the caller's
  \<open>workflow_id\<close>, \<open>-\<close>, and the incremented \<open>function_id\<close> in decimal: a function of
  those two only, the same on every replay. The call then is, as a whole: the child context
  made from that caller's context, carrying the id; the status and the state that
  \<open>_init_workflow\<close> gives for the child, the status \<open>PENDING\<close> under the child's id; the
  submission of the two to the executor; the handle with the child's id; and the caller's
  context as \<open>create_child\<close> leaves it, its \<open>function_id\<close> the incremented one. Of the
  methods outside \<open>core.py\<close> this takes that \<open>create_child\<close> hands the reserved id to a
  child that is in no workflow yet and leaves the caller's counter alone, and that
  \<open>assign_workflow_id\<close> returns an id already assigned.
\<close>

theorem start_workflow_child_id:
  assumes "is_workflow c" and "id_assigned_for_next_workflow c = []" and "registered func"
    and "id_assigned_for_next_workflow
           (fst (create_child K
              (c\<lparr>function_id := function_id c + 1,
                 id_assigned_for_next_workflow :=
                   workflow_id c @ ''-'' @ str_int (function_id c + 1)\<rparr>)))
         = workflow_id c @ ''-'' @ str_int (function_id c + 1)"
    and "workflow_id
           (fst (create_child K
              (c\<lparr>function_id := function_id c + 1,
                 id_assigned_for_next_workflow :=
                   workflow_id c @ ''-'' @ str_int (function_id c + 1)\<rparr>))) = []"
    and "function_id
           (snd (create_child K
              (c\<lparr>function_id := function_id c + 1,
                 id_assigned_for_next_workflow :=
                   workflow_id c @ ''-'' @ str_int (function_id c + 1)\<rparr>)))
         = function_id c + 1"
    and "\<forall>c'. id_assigned_for_next_workflow c' \<noteq> [] \<longrightarrow>
           assign_workflow_id K c' = id_assigned_for_next_workflow c'"
  shows "let child_id = workflow_id c @ ''-'' @ str_int (function_id c + 1);
             c1 = c\<lparr>function_id := function_id c + 1,
                    id_assigned_for_next_workflow := child_id\<rparr>;
             child = (fst (create_child K c1))\<lparr>id_assigned_for_next_workflow := child_id\<rparr>;
             gin_args = (case wf_self func of None \<Rightarrow> args inputs | Some fself \<Rightarrow> [fself]);
             st = fst (init_workflow U d child inputs (dbos_func_name func)
                         (dbos_class_name func gin_args) (dbos_config_name func gin_args)
                         (temp_workflow_type func));
             d1 = snd (init_workflow U d child inputs (dbos_func_name func)
                         (dbos_class_name func gin_args) (dbos_config_name func gin_args)
                         (temp_workflow_type func))
         in reserve_child_id (Some c) = Inr (Some c1)
            \<and> start_workflow K U func inputs (Some c) d =
                (Inr (WorkflowHandleFuture child_id), Some (snd (create_child K c1)),
                 d1\<lparr>submitted := submitted d1 @ [(st, child)]\<rparr>)
            \<and> function_id (snd (create_child K c1)) = function_id c + 1
            \<and> workflow_uuid st = child_id \<and> status st = ''PENDING''"
proof -
  let ?id = "workflow_id c @ ''-'' @ str_int (function_id c + 1)"
  let ?c1 = "c\<lparr>function_id := function_id c + 1, id_assigned_for_next_workflow := ?id\<rparr>"
  have r: "reserve_child_id (Some c) = Inr (Some ?c1)"
    using assms(1,2) by (simp add: reserve_child_id_def is_workflow_def Let_def)
  have a: "assign_workflow_id K (fst (create_child K ?c1)) = ?id"
    using assms(4,7) by simp
  have s: "start_workflow K U func inputs (Some c) d =
      (Inr (WorkflowHandleFuture ?id), Some (snd (create_child K ?c1)),
       (snd (init_workflow U d
               ((fst (create_child K ?c1))\<lparr>id_assigned_for_next_workflow := ?id\<rparr>) inputs
               (dbos_func_name func)
               (dbos_class_name func
                  (case wf_self func of None \<Rightarrow> args inputs | Some fself \<Rightarrow> [fself]))
               (dbos_config_name func
                  (case wf_self func of None \<Rightarrow> args inputs | Some fself \<Rightarrow> [fself]))
               (temp_workflow_type func)))
         \<lparr>submitted :=
            submitted (snd (init_workflow U d
               ((fst (create_child K ?c1))\<lparr>id_assigned_for_next_workflow := ?id\<rparr>) inputs
               (dbos_func_name func)
               (dbos_class_name func
                  (case wf_self func of None \<Rightarrow> args inputs | Some fself \<Rightarrow> [fself]))
               (dbos_config_name func
                  (case wf_self func of None \<Rightarrow> args inputs | Some fself \<Rightarrow> [fself]))
               (temp_workflow_type func)))
            @ [(fst (init_workflow U d
               ((fst (create_child K ?c1))\<lparr>id_assigned_for_next_workflow := ?id\<rparr>) inputs
               (dbos_func_name func)
               (dbos_class_name func
                  (case wf_self func of None \<Rightarrow> args inputs | Some fself \<Rightarrow> [fself]))
               (dbos_config_name func
                  (case wf_self func of None \<Rightarrow> args inputs | Some fself \<Rightarrow> [fself]))
               (temp_workflow_type func)),
                (fst (create_child K ?c1))\<lparr>id_assigned_for_next_workflow := ?id\<rparr>)]\<rparr>)"
    using assms(3) a by (simp add: start_workflow_def r Let_def case_prod_beta)
  have st: "workflow_uuid (fst (init_workflow U d
               ((fst (create_child K ?c1))\<lparr>id_assigned_for_next_workflow := ?id\<rparr>) inputs
               wn cn fn tt)) = ?id
      \<and> status (fst (init_workflow U d
               ((fst (create_child K ?c1))\<lparr>id_assigned_for_next_workflow := ?id\<rparr>) inputs
               wn cn fn tt)) = ''PENDING''" for wn cn fn tt
    using assms(5) by (simp add: init_workflow_def Let_def)
  show ?thesis
    unfolding Let_def using r s st assms(6) by simp
qed

theorem execute_workflow_terminal_status_witness:
  "execute_workflow ex_utils ex_await (ex_status None None)
      (ex_workflow (Inr (PyObject ''30''))) ex_inputs ex_dbos =
     (Inr (PyObject ''30''),
      (ex_status None None)\<lparr>status := ''SUCCESS'', st_output := Some ''30''\<rparr>,
      ex_dbos\<lparr>app := 1,
              status_buffer :=
                [(ex_status None None)\<lparr>status := ''SUCCESS'', st_output := Some ''30''\<rparr>]\<rparr>)
   \<and> execute_workflow ex_utils ex_await (ex_status None None)
      (ex_workflow (Inl (UserError ''boom''))) ex_inputs ex_dbos =
     (Inl (UserError ''boom''),
      (ex_status None None)\<lparr>status := ''ERROR'', st_error := Some ''boom''\<rparr>,
      ex_dbos\<lparr>app := 1,
              workflow_status := (workflow_status ex_dbos)
                (''wf'' \<mapsto> (ex_status None None)\<lparr>status := ''ERROR'', st_error := Some ''boom''\<rparr>)\<rparr>)"
proof -
  have h: "\<forall>x. fst (wf_body (ex_workflow (Inr (PyObject ''30''))) ex_inputs ex_dbos)
             \<noteq> Inl (DBOSWorkflowConflictIDError x)"
    "\<forall>x. fst (wf_body (ex_workflow (Inl (UserError ''boom''))) ex_inputs ex_dbos)
             \<noteq> Inl (DBOSWorkflowConflictIDError x)"
    by (simp_all add: ex_workflow_def)
  show ?thesis
    using execute_workflow_terminal_status [OF h(1), of ex_utils ex_await "ex_status None None"]
      execute_workflow_terminal_status [OF h(2), of ex_utils ex_await "ex_status None None"]
    by (simp add: ex_workflow_def ex_utils_def ex_dbos_def ex_status_def)
qed

theorem execute_workflow_conflict_witness:
  "fst (wf_body (ex_workflow (Inl (DBOSWorkflowConflictIDError ''wf''))) ex_inputs ex_dbos)
     = Inl (DBOSWorkflowConflictIDError ''wf'')
   \<and> execute_workflow ex_utils ex_await (ex_status None None)
      (ex_workflow (Inl (DBOSWorkflowConflictIDError ''wf''))) ex_inputs ex_dbos =
     (Inr (PyObject ''result of wf''), ex_status None None, ex_dbos\<lparr>app := 1\<rparr>)"
proof -
  have h: "fst (wf_body (ex_workflow (Inl (DBOSWorkflowConflictIDError ''wf''))) ex_inputs ex_dbos)
     = Inl (DBOSWorkflowConflictIDError ''wf'')"
    by (simp add: ex_workflow_def)
  show ?thesis
    using h execute_workflow_conflict [OF h, of ex_utils ex_await "ex_status None None"]
    by (simp add: ex_workflow_def ex_await_def ex_dbos_def ex_status_def)
qed

theorem start_workflow_child_id_witness:
  "reserve_child_id (Some ex_ctx) =
       Inr (Some (ex_ctx\<lparr>function_id := 1, id_assigned_for_next_workflow := ''wf-1''\<rparr>))
   \<and> start_workflow ex_context_api ex_utils (ex_workflow (Inr PyNone)) ex_inputs
        (Some ex_ctx) ex_dbos =
       (Inr (WorkflowHandleFuture ''wf-1''),
        Some (ex_ctx\<lparr>function_id := 1\<rparr>),
        ex_dbos\<lparr>workflow_status := (workflow_status ex_dbos)
                  (''wf-1'' \<mapsto> (ex_status None None)\<lparr>workflow_uuid := ''wf-1''\<rparr>),
                workflow_inputs := (workflow_inputs ex_dbos)(''wf-1'' \<mapsto> ''5,''),
                submitted :=
                  [((ex_status None None)\<lparr>workflow_uuid := ''wf-1''\<rparr>,
                    ex_ctx\<lparr>workflow_id := [], id_assigned_for_next_workflow := ''wf-1''\<rparr>)]\<rparr>)"
proof -
  have s: "str_int 1 = ''1''"
    by (simp add: str_int_def str_nat.simps)
  have h: "is_workflow ex_ctx" "id_assigned_for_next_workflow ex_ctx = []"
    "registered (ex_workflow (Inr PyNone))"
    by (simp_all add: is_workflow_def is_within_workflow_def is_step_def is_transaction_def
        ex_ctx_def ex_workflow_def)
  have k: "id_assigned_for_next_workflow
           (fst (create_child ex_context_api
              (ex_ctx\<lparr>function_id := function_id ex_ctx + 1,
                 id_assigned_for_next_workflow :=
                   workflow_id ex_ctx @ ''-'' @ str_int (function_id ex_ctx + 1)\<rparr>)))
         = workflow_id ex_ctx @ ''-'' @ str_int (function_id ex_ctx + 1)"
    "workflow_id
           (fst (create_child ex_context_api
              (ex_ctx\<lparr>function_id := function_id ex_ctx + 1,
                 id_assigned_for_next_workflow :=
                   workflow_id ex_ctx @ ''-'' @ str_int (function_id ex_ctx + 1)\<rparr>))) = []"
    "function_id
           (snd (create_child ex_context_api
              (ex_ctx\<lparr>function_id := function_id ex_ctx + 1,
                 id_assigned_for_next_workflow :=
                   workflow_id ex_ctx @ ''-'' @ str_int (function_id ex_ctx + 1)\<rparr>)))
         = function_id ex_ctx + 1"
    "\<forall>c'. id_assigned_for_next_workflow c' \<noteq> [] \<longrightarrow>
           assign_workflow_id ex_context_api c' = id_assigned_for_next_workflow c'"
    by (simp_all add: ex_context_api_def)
  show ?thesis
    using start_workflow_child_id [OF h k, where U = ex_utils and d = ex_dbos and inputs = ex_inputs]
    by (simp add: Let_def ex_ctx_def s ex_context_api_def ex_workflow_def ex_inputs_def
        ex_utils_def ex_dbos_def ex_status_def init_workflow_def update_workflow_status_def
        update_workflow_inputs_def)
qed

text \<open>
  C9. Recovery of a workflow id fails with \<open>DBOSRecoveryError\<close> when the status row is
  missing, and when the inputs row is missing; with both present it fails with
  \<open>DBOSWorkflowFunctionNotFoundError\<close> when the registry has no function under the name in
  the status row, and, with the function found, when the status row names a config whose
  instance \<open>class/config\<close> is not registered, or names only a class that is not
  registered. Each failure is the raised result of the call, and the state is as before.
\<close>

theorem execute_workflow_id_errors:
  "(workflow_status d wfid = None \<longrightarrow>
      execute_workflow_id K U reg cur_ctx wfid d =
        (Inl (DBOSRecoveryError wfid ''Workflow status not found''), d))
   \<and> (workflow_status d wfid = Some st \<and> workflow_inputs d wfid = None \<longrightarrow>
      execute_workflow_id K U reg cur_ctx wfid d =
        (Inl (DBOSRecoveryError wfid ''Workflow inputs not found''), d))
   \<and> (workflow_status d wfid = Some st \<and> workflow_inputs d wfid = Some si
      \<and> workflow_info_map reg (name st) = None \<longrightarrow>
      execute_workflow_id K U reg cur_ctx wfid d =
        (Inl (DBOSWorkflowFunctionNotFoundError wfid ''Workflow function not found''), d))
   \<and> (workflow_status d wfid = Some st \<and> workflow_inputs d wfid = Some si
      \<and> workflow_info_map reg (name st) = Some f \<and> config_name st = Some cfg
      \<and> instance_info_map reg (fmt (class_name st) @ ''/'' @ cfg) = None \<longrightarrow>
      execute_workflow_id K U reg cur_ctx wfid d =
        (Inl (DBOSWorkflowFunctionNotFoundError wfid
               (''Cannot execute workflow because instance '' @ [CHR 0x27]
                @ fmt (class_name st) @ ''/'' @ cfg @ [CHR 0x27] @ '' is not registered'')), d))
   \<and> (workflow_status d wfid = Some st \<and> workflow_inputs d wfid = Some si
      \<and> workflow_info_map reg (name st) = Some f \<and> config_name st = None
      \<and> class_name st = Some cls \<and> class_info_map reg cls = None \<longrightarrow>
      execute_workflow_id K U reg cur_ctx wfid d =
        (Inl (DBOSWorkflowFunctionNotFoundError wfid
               (''Cannot execute workflow because class '' @ [CHR 0x27]
                @ cls @ [CHR 0x27] @ '' is not registered'')), d))"
  by (simp add: execute_workflow_id_def get_workflow_status_def get_workflow_inputs_def Let_def)

theorem execute_workflow_id_errors_witness:
  "execute_workflow_id ex_context_api ex_utils ex_registry None ''wf''
      (recovery_dbos None (Some ''5'')) =
     (Inl (DBOSRecoveryError ''wf'' ''Workflow status not found''),
      recovery_dbos None (Some ''5''))
   \<and> execute_workflow_id ex_context_api ex_utils ex_registry None ''wf''
      (recovery_dbos (Some (ex_status None None)) None) =
     (Inl (DBOSRecoveryError ''wf'' ''Workflow inputs not found''),
      recovery_dbos (Some (ex_status None None)) None)
   \<and> execute_workflow_id ex_context_api ex_utils ex_registry None ''wf''
      (recovery_dbos (Some ((ex_status None None)\<lparr>name := ''gone''\<rparr>)) (Some ''5'')) =
     (Inl (DBOSWorkflowFunctionNotFoundError ''wf'' ''Workflow function not found''),
      recovery_dbos (Some ((ex_status None None)\<lparr>name := ''gone''\<rparr>)) (Some ''5''))
   \<and> execute_workflow_id ex_context_api ex_utils ex_registry None ''wf''
      (recovery_dbos (Some (ex_status (Some ''C'') (Some ''i1''))) (Some ''5'')) =
     (Inl (DBOSWorkflowFunctionNotFoundError ''wf''
            (''Cannot execute workflow because instance '' @ [CHR 0x27] @ ''C/i1''
             @ [CHR 0x27] @ '' is not registered'')),
      recovery_dbos (Some (ex_status (Some ''C'') (Some ''i1''))) (Some ''5''))
   \<and> execute_workflow_id ex_context_api ex_utils ex_registry None ''wf''
      (recovery_dbos (Some (ex_status (Some ''C'') None)) (Some ''5'')) =
     (Inl (DBOSWorkflowFunctionNotFoundError ''wf''
            (''Cannot execute workflow because class '' @ [CHR 0x27] @ ''C''
             @ [CHR 0x27] @ '' is not registered'')),
      recovery_dbos (Some (ex_status (Some ''C'') None)) (Some ''5''))"
  using
    execute_workflow_id_errors [of "recovery_dbos None (Some ''5'')" "''wf''" ex_context_api
      ex_utils ex_registry None]
    execute_workflow_id_errors [of "recovery_dbos (Some (ex_status None None)) None" "''wf''"
      ex_context_api ex_utils ex_registry None "ex_status None None"]
    execute_workflow_id_errors [of
      "recovery_dbos (Some ((ex_status None None)\<lparr>name := ''gone''\<rparr>)) (Some ''5'')" "''wf''"
      ex_context_api ex_utils ex_registry None "(ex_status None None)\<lparr>name := ''gone''\<rparr>" "''5''"]
    execute_workflow_id_errors [of
      "recovery_dbos (Some (ex_status (Some ''C'') (Some ''i1''))) (Some ''5'')" "''wf''"
      ex_context_api ex_utils ex_registry None "ex_status (Some ''C'') (Some ''i1'')" "''5''"
      "ex_workflow (Inr PyNone)" "''i1''"]
    execute_workflow_id_errors [of
      "recovery_dbos (Some (ex_status (Some ''C'') None)) (Some ''5'')" "''wf''"
      ex_context_api ex_utils ex_registry None "ex_status (Some ''C'') None" "''5''"
      "ex_workflow (Inr PyNone)" _ "''C''"]
  by (simp add: recovery_dbos_def ex_registry_def ex_status_def fmt_def)

text \<open>
  C8. Called in a workflow (and not in a step or transaction), \<open>recv\<close> and \<open>get_event\<close> each
  take two consecutive function ids: with the counter at \<open>f\<close>, the operation is issued to
  the system database with \<open>f + 1\<close> as its own id and \<open>f + 2\<close> as the id of the timeout,
  and the counter is left at \<open>f + 2\<close>. Called with no context or with one that is outside
  any workflow, \<open>get_event\<close> issues the read with no caller context, hence no function id
  under which to record, and leaves the context as it was.
\<close>

theorem timed_wait_function_ids:
  assumes "is_workflow c"
    and "\<forall>c'. cur_ctx = Some c' \<longrightarrow> \<not> is_within_workflow c'"
  shows "recv sys_db_recv (Some c) topic timeout_seconds d =
           (fst (sys_db_recv (workflow_id c) (function_id c + 1) (function_id c + 2) topic
                   timeout_seconds d),
            Some (c\<lparr>function_id := function_id c + 2, curr_step_function_id := - 1\<rparr>),
            snd (sys_db_recv (workflow_id c) (function_id c + 1) (function_id c + 2) topic
                   timeout_seconds d))
         \<and> get_event sys_db_get_event (Some c) wfid key timeout_seconds d =
           (fst (sys_db_get_event wfid key timeout_seconds
                   (Some \<lparr>ge_workflow_uuid = workflow_id c, ge_function_id = function_id c + 1,
                          ge_timeout_function_id = function_id c + 2\<rparr>) d),
            Some (c\<lparr>function_id := function_id c + 2, curr_step_function_id := - 1\<rparr>),
            snd (sys_db_get_event wfid key timeout_seconds
                   (Some \<lparr>ge_workflow_uuid = workflow_id c, ge_function_id = function_id c + 1,
                          ge_timeout_function_id = function_id c + 2\<rparr>) d))
         \<and> get_event sys_db_get_event cur_ctx wfid key timeout_seconds d =
           (fst (sys_db_get_event wfid key timeout_seconds None d), cur_ctx,
            snd (sys_db_get_event wfid key timeout_seconds None d))"
proof -
  have w: "is_within_workflow c" using assms(1) by (simp add: is_workflow_def)
  have inside: "recv sys_db_recv (Some c) topic timeout_seconds d =
           (fst (sys_db_recv (workflow_id c) (function_id c + 1) (function_id c + 2) topic
                   timeout_seconds d),
            Some (c\<lparr>function_id := function_id c + 2, curr_step_function_id := - 1\<rparr>),
            snd (sys_db_recv (workflow_id c) (function_id c + 1) (function_id c + 2) topic
                   timeout_seconds d))
         \<and> get_event sys_db_get_event (Some c) wfid key timeout_seconds d =
           (fst (sys_db_get_event wfid key timeout_seconds
                   (Some \<lparr>ge_workflow_uuid = workflow_id c, ge_function_id = function_id c + 1,
                          ge_timeout_function_id = function_id c + 2\<rparr>) d),
            Some (c\<lparr>function_id := function_id c + 2, curr_step_function_id := - 1\<rparr>),
            snd (sys_db_get_event wfid key timeout_seconds
                   (Some \<lparr>ge_workflow_uuid = workflow_id c, ge_function_id = function_id c + 1,
                          ge_timeout_function_id = function_id c + 2\<rparr>) d))"
    using assms(1) w
    by (simp add: recv_def get_event_def Let_def EnterDBOSStep_enter_def EnterDBOSStep_exit_def
        case_prod_beta add.commute)
  have outside: "get_event sys_db_get_event cur_ctx wfid key timeout_seconds d =
           (fst (sys_db_get_event wfid key timeout_seconds None d), cur_ctx,
            snd (sys_db_get_event wfid key timeout_seconds None d))"
    using assms(2) by (cases cur_ctx) (simp_all add: get_event_def Let_def case_prod_beta)
  show ?thesis using inside outside by simp
qed

theorem timed_wait_function_ids_witness:
  "is_workflow ex_ctx
   \<and> recv ex_sys_db_recv (Some ex_ctx) None 60 ex_dbos =
       (Inr PyNone, Some (ex_ctx\<lparr>function_id := 2, curr_step_function_id := - 1\<rparr>),
        ex_dbos\<lparr>operation_outputs := (operation_outputs ex_dbos)
          ((''wf'', 1) \<mapsto> \<lparr>r_output = Some ''null'', r_error = None\<rparr>,
           (''wf'', 2) \<mapsto> \<lparr>r_output = Some ''slept'', r_error = None\<rparr>)\<rparr>)
   \<and> get_event ex_sys_db_get_event (Some ex_ctx) ''other'' ''key'' 60 ex_dbos =
       (Inr PyNone, Some (ex_ctx\<lparr>function_id := 2, curr_step_function_id := - 1\<rparr>),
        ex_dbos\<lparr>operation_outputs := (operation_outputs ex_dbos)
          ((''wf'', 1) \<mapsto> \<lparr>r_output = Some ''null'', r_error = None\<rparr>,
           (''wf'', 2) \<mapsto> \<lparr>r_output = Some ''slept'', r_error = None\<rparr>)\<rparr>)
   \<and> get_event ex_sys_db_get_event None ''other'' ''key'' 60 ex_dbos =
       (Inr PyNone, None, ex_dbos)"
proof -
  have h: "is_workflow ex_ctx"
    "\<forall>c'. (None :: string DBOSContext option) = Some c' \<longrightarrow> \<not> is_within_workflow c'"
    by (simp_all add: is_workflow_def is_within_workflow_def is_step_def is_transaction_def
        ex_ctx_def)
  show ?thesis
    using h(1) timed_wait_function_ids [OF h, of ex_sys_db_recv None 60 ex_dbos
        ex_sys_db_get_event "''other''" "''key''"]
    by (simp add: ex_sys_db_recv_def ex_sys_db_get_event_def ex_ctx_def)
qed

end
